theory Spec2Isabelle
  imports Main "HOL-Library.Char_ord" "HOL-Library.List_Lexorder" "HOL-Library.Multiset"
begin

section \<open>Data model\<close>

text \<open>
  The program is one function, \<^verbatim>\<open>procesar_datos(df)\<close> of \<^verbatim>\<open>app.py\<close>, over a pandas
  DataFrame read from a CSV file, and the three lines of the Streamlit shell that call it.

  A DataFrame is modelled column by column, as pandas stores it: a list of row labels (the
  index) and, for each column, the list of its values together with its dtype. The three
  columns the program names are fields of the record, \<open>None\<close> when the column is absent
  from the file; the remaining columns are kept by name.

  \<^item> A text value is a \<open>string\<close> holding the UTF-8 bytes of the Python \<^verbatim>\<open>str\<close>; the
    bytewise lexicographic order of UTF-8 is the code-point order that Python compares by,
    and the quote character is the single byte \<open>0x27\<close>.
  \<^item> A value of a column is text, a number or \<^verbatim>\<open>NaN\<close> (an empty CSV field). A
    number is an integer: a Python \<^verbatim>\<open>int\<close>, or a \<^verbatim>\<open>float\<close> of that whole value, which
    compare alike. Floats with a fractional part and infinities are outside the model.
  \<^item> The case and date columns carry their dtype: an object-dtype column of values (in
    which a number is a Python \<^verbatim>\<open>int\<close>), or an int64 column.
  \<^item> The action column is the list of its values: an object-dtype column of labels, an
    int64 column of numeric codes, or a float64 column of numeric codes with empty fields.
  \<^item> A \<^verbatim>\<open>datetime64[ns]\<close> column holds timestamps, as nanoseconds since 1970-01-01
    00:00 without a time zone, and \<^verbatim>\<open>NaT\<close>, here \<open>None\<close>.
\<close>

type_synonym timestamp = int

datatype cell = Str string | Num int | NaN

datatype column = ObjCol "cell list" | IntCol "int list"

datatype fcolumn = Raw column | Dates "timestamp option list"

record frame =
  index :: "nat list"
  caso :: "column option"
  fecha :: "fcolumn option"
  actuacion :: "cell list option"
  dias :: "int list option"
  otras :: "(string \<times> column) list"

text \<open>Python's \<^verbatim>\<open>datetime\<close>, the type of \<^verbatim>\<open>datetime.now()\<close>.\<close>

record datetime =
  year :: int
  month :: int
  day :: int
  hour :: int
  minute :: int
  second :: int
  microsecond :: int

text \<open>The exceptions raised inside the \<^verbatim>\<open>try\<close> block, and what the two handlers report.\<close>

datatype exn = KeyError string | TypeError | ValueError

datatype fallo = SchemaError string | ProcessingError exn

text \<open>The six values returned on success.\<close>

record salida =
  lista_actuaciones :: "cell list"
  df_completo :: frame
  df_clasificado_fecha :: frame
  resultado_atrasados :: frame
  fecha_actual :: datetime
  fecha_limite :: datetime

text \<open>
  The library functions whose algorithm is not part of the repository are parameters:
  \<^item> \<open>to_datetime\<close> is \<^verbatim>\<open>pd.to_datetime(column, errors='coerce')\<close>: one timestamp or
    \<^verbatim>\<open>NaT\<close> for each value of the column. It works on the whole column (pandas infers the
    format from the column), so it is not assumed to act value by value.
  \<^item> \<open>nargsort_desc\<close> is the ordering that \<^verbatim>\<open>sort_values(by=..., ascending=False)\<close>
    applies with its default \<^verbatim>\<open>kind='quicksort'\<close>: the positions of the keys in
    non-increasing order of key.
  \<^item> \<open>orden_nan\<close> is the arrangement in which Python's \<^verbatim>\<open>list.sort()\<close> leaves a list
    of distinct numbers and \<^verbatim>\<open>nan\<close> that is not in one run already: the rank of each
    value in the list it leaves. That arrangement depends on which comparisons the
    algorithm happens to make with \<^verbatim>\<open>nan\<close>, all of them false.
\<close>

record library =
  to_datetime :: "column \<Rightarrow> timestamp option list"
  nargsort_desc :: "int list \<Rightarrow> nat list"
  orden_nan :: "cell list \<Rightarrow> cell \<Rightarrow> nat"

section \<open>Column names\<close>

definition COL_ACTUACION :: string where
  "COL_ACTUACION = [CHR 0xC3, CHR 0x9A] @ ''ltima Actuaci'' @ [CHR 0xC3, CHR 0xB3] @ ''n''"

definition COL_FECHA :: string where
  "COL_FECHA = ''Fecha Actuaci'' @ [CHR 0xC3, CHR 0xB3] @ ''n''"

definition COL_CASO :: string where
  "COL_CASO = ''N'' @ [CHR 0xC3, CHR 0xBA] @ ''mero Noticia''"

section \<open>DataFrame operations\<close>

fun col_len :: "column \<Rightarrow> nat" where
  "col_len (ObjCol xs) = length xs"
| "col_len (IntCol xs) = length xs"

fun fcol_len :: "fcolumn \<Rightarrow> nat" where
  "fcol_len (Raw c) = col_len c"
| "fcol_len (Dates ds) = length ds"

text \<open>Boolean indexing \<^verbatim>\<open>df[mask]\<close>: the rows whose mask entry is true, in their order.\<close>

definition select :: "bool list \<Rightarrow> 'a list \<Rightarrow> 'a list" where
  "select m xs = map snd (filter fst (zip m xs))"

fun select_col :: "bool list \<Rightarrow> column \<Rightarrow> column" where
  "select_col m (ObjCol xs) = ObjCol (select m xs)"
| "select_col m (IntCol xs) = IntCol (select m xs)"

fun select_fcol :: "bool list \<Rightarrow> fcolumn \<Rightarrow> fcolumn" where
  "select_fcol m (Raw c) = Raw (select_col m c)"
| "select_fcol m (Dates ds) = Dates (select m ds)"

definition select_rows :: "bool list \<Rightarrow> frame \<Rightarrow> frame" where
  "select_rows m df =
     \<lparr> index = select m (index df),
       caso = map_option (select_col m) (caso df),
       fecha = map_option (select_fcol m) (fecha df),
       actuacion = map_option (select m) (actuacion df),
       dias = map_option (select m) (dias df),
       otras = map (\<lambda>(n, c). (n, select_col m c)) (otras df) \<rparr>"

text \<open>
  Positional indexing \<^verbatim>\<open>df.take(positions)\<close>, which \<^verbatim>\<open>sort_values\<close> applies to the
  positions its sort returns (always positions of the frame).
\<close>

definition take_pos :: "nat list \<Rightarrow> 'a list \<Rightarrow> 'a list" where
  "take_pos ps xs = map (\<lambda>p. xs ! p) ps"

fun take_col :: "nat list \<Rightarrow> column \<Rightarrow> column" where
  "take_col ps (ObjCol xs) = ObjCol (take_pos ps xs)"
| "take_col ps (IntCol xs) = IntCol (take_pos ps xs)"

fun take_fcol :: "nat list \<Rightarrow> fcolumn \<Rightarrow> fcolumn" where
  "take_fcol ps (Raw c) = Raw (take_col ps c)"
| "take_fcol ps (Dates ds) = Dates (take_pos ps ds)"

definition take_rows :: "nat list \<Rightarrow> frame \<Rightarrow> frame" where
  "take_rows ps df =
     \<lparr> index = take_pos ps (index df),
       caso = map_option (take_col ps) (caso df),
       fecha = map_option (take_fcol ps) (fecha df),
       actuacion = map_option (take_pos ps) (actuacion df),
       dias = map_option (take_pos ps) (dias df),
       otras = map (\<lambda>(n, c). (n, take_col ps c)) (otras df) \<rparr>"

text \<open>\<^verbatim>\<open>pd.DataFrame()\<close>: no rows and no columns.\<close>

definition DataFrame_vacio :: frame where
  "DataFrame_vacio =
     \<lparr> index = [], caso = None, fecha = None, actuacion = None, dias = None, otras = [] \<rparr>"

section \<open>Step 1.0: quotes of the case identifier (lines 24-25)\<close>

text \<open>\<^verbatim>\<open>str\<close> of a Python \<^verbatim>\<open>int\<close>: its decimal digits, after a minus sign when negative.\<close>

function digitos :: "nat \<Rightarrow> string" where
  "digitos n =
     (if n < 10 then [''0123456789'' ! n]
      else digitos (n div 10) @ [''0123456789'' ! (n mod 10)])"
  by pat_completeness auto
termination
  by (relation "measure (\<lambda>n. n)") auto

declare digitos.simps [simp del]

definition str_int :: "int \<Rightarrow> string" where
  "str_int i = (if i < 0 then CHR ''-'' # digitos (nat (- i)) else digitos (nat i))"

text \<open>
  \<^verbatim>\<open>.astype(str)\<close> on an object column: text stays, a number becomes its digits,
  \<^verbatim>\<open>NaN\<close> becomes the text \<^verbatim>\<open>nan\<close>.
\<close>

fun astype_str :: "cell \<Rightarrow> string" where
  "astype_str (Str s) = s"
| "astype_str (Num n) = str_int n"
| "astype_str NaN = ''nan''"

text \<open>\<^verbatim>\<open>.str.replace("'", "", regex=False)\<close>.\<close>

definition quitar_comillas :: "string \<Rightarrow> string" where
  "quitar_comillas s = filter (\<lambda>c. c \<noteq> CHR 0x27) s"

text \<open>
  \<^verbatim>\<open>if COL_CASO in df.columns and df[COL_CASO].dtype == 'object'\<close>: an absent column and an
  int64 column are left as they are.
\<close>

definition limpiar_caso :: "frame \<Rightarrow> frame" where
  "limpiar_caso df =
     (case caso df of
        Some (ObjCol xs) \<Rightarrow>
          df\<lparr>caso := Some (ObjCol (map (\<lambda>c. Str (quitar_comillas (astype_str c))) xs))\<rparr>
      | _ \<Rightarrow> df)"

section \<open>Step 1.1: dates (lines 28-31)\<close>

text \<open>A column that is already \<^verbatim>\<open>datetime64\<close> comes back from \<^verbatim>\<open>pd.to_datetime\<close> as it is.\<close>

fun a_datetime :: "library \<Rightarrow> fcolumn \<Rightarrow> timestamp option list" where
  "a_datetime L (Raw c) = to_datetime L c"
| "a_datetime L (Dates ds) = ds"

definition notna :: "'a option \<Rightarrow> bool" where
  "notna d = (d \<noteq> None)"

fun validas :: "'a option list \<Rightarrow> 'a list" where
  "validas [] = []"
| "validas (None # ds) = validas ds"
| "validas (Some t # ds) = t # validas ds"

section \<open>Step 2: the list of actions (lines 34-35)\<close>

text \<open>\<^verbatim>\<open>Series.unique()\<close>: the distinct values in order of first appearance.\<close>

definition unique :: "'a list \<Rightarrow> 'a list" where
  "unique xs = rev (remdups (rev xs))"

fun is_Str :: "cell \<Rightarrow> bool" where
  "is_Str (Str s) = True"
| "is_Str (Num n) = False"
| "is_Str NaN = False"

fun texto :: "cell \<Rightarrow> string" where
  "texto (Str s) = s"
| "texto (Num n) = []"
| "texto NaN = []"

fun entero :: "cell \<Rightarrow> int" where
  "entero (Num n) = n"
| "entero (Str s) = 0"
| "entero NaN = 0"

text \<open>
  Python's \<^verbatim>\<open><\<close> between two values of a list that \<^verbatim>\<open>list.sort()\<close> accepts: text by
  code point, numbers by value, and false whenever \<^verbatim>\<open>nan\<close> is one of the two. (Text is
  never compared with a number here: such a list raises before.)
\<close>

fun py_lt :: "cell \<Rightarrow> cell \<Rightarrow> bool" where
  "py_lt (Str a) (Str b) = (a < b)"
| "py_lt (Num a) (Num b) = (a < b)"
| "py_lt _ _ = False"

text \<open>
  A list in which no value is less than the one before it. \<^verbatim>\<open>list.sort()\<close> first looks for
  such a run from the start of the list; when the run is the whole list, the sort is over
  and the list is as it was.
\<close>

fun un_solo_run :: "cell list \<Rightarrow> bool" where
  "un_solo_run (x # y # zs) = (\<not> py_lt y x \<and> un_solo_run (y # zs))"
| "un_solo_run zs = True"

text \<open>
  \<^verbatim>\<open>list.sort()\<close> on the list of distinct values of the action column.
  \<^item> Comparing a \<^verbatim>\<open>str\<close> with a number or with \<^verbatim>\<open>float('nan')\<close> raises \<^verbatim>\<open>TypeError\<close>,
    and a sort compares every element with another one of the list until all are
    connected, so a list holding text and something else raises.
  \<^item> A list of text is sorted by code point.
  \<^item> A list of numbers and \<^verbatim>\<open>nan\<close> that is one run is left as it is: a list of \<^verbatim>\<open>nan\<close>
    only, and also \<^verbatim>\<open>[2.0, nan, 1.0]\<close>, since \<^verbatim>\<open>nan < 2.0\<close> and \<^verbatim>\<open>1.0 < nan\<close> are both
    false.
  \<^item> Any other list of numbers with \<^verbatim>\<open>nan\<close> is left in the arrangement \<open>orden_nan\<close>,
    some arrangement of the same values.
  \<^item> A list of numbers is sorted by value.
\<close>

definition list_sort :: "library \<Rightarrow> cell list \<Rightarrow> exn + cell list" where
  "list_sort L xs =
     (if list_ex is_Str xs \<and> list_ex (\<lambda>c. \<not> is_Str c) xs then Inl TypeError
      else if list_ex is_Str xs then Inr (map Str (sort (map texto xs)))
      else if un_solo_run xs then Inr xs
      else if list_ex (\<lambda>c. c = NaN) xs then Inr (sort_key (orden_nan L xs) xs)
      else Inr (map Num (sort (map entero xs))))"

section \<open>Step 4: dates of the calendar (lines 43-46)\<close>

definition is_leap :: "int \<Rightarrow> bool" where
  "is_leap y = (y mod 4 = 0 \<and> (y mod 100 \<noteq> 0 \<or> y mod 400 = 0))"

text \<open>\<^verbatim>\<open>calendar.monthrange(year, month)[1]\<close>.\<close>

definition days_in_month :: "int \<Rightarrow> int \<Rightarrow> int" where
  "days_in_month y m =
     (if m = 2 then (if is_leap y then 29 else 28)
      else if m = 4 \<or> m = 6 \<or> m = 9 \<or> m = 11 then 30 else 31)"

text \<open>
  \<^verbatim>\<open>_days_before_year\<close> and \<^verbatim>\<open>_days_before_month\<close> of Python's \<^verbatim>\<open>datetime\<close>, the
  latter by its table, for a month from 1 to 12.
\<close>

definition days_before_year :: "int \<Rightarrow> int" where
  "days_before_year y = (y - 1) * 365 + (y - 1) div 4 - (y - 1) div 100 + (y - 1) div 400"

definition days_before_month :: "int \<Rightarrow> int \<Rightarrow> int" where
  "days_before_month y m =
     [0, 31, 59, 90, 120, 151, 181, 212, 243, 273, 304, 334] ! nat (m - 1)
       + (if 2 < m \<and> is_leap y then 1 else 0)"

text \<open>\<^verbatim>\<open>date.toordinal()\<close>: day 1 is 0001-01-01.\<close>

definition ymd2ord :: "int \<Rightarrow> int \<Rightarrow> int \<Rightarrow> int" where
  "ymd2ord y m d = days_before_year y + days_before_month y m + d"

definition NS_DIA :: int where
  "NS_DIA = 86400000000000"

text \<open>The timestamp that pandas compares a \<^verbatim>\<open>datetime\<close> as; 1970-01-01 has ordinal 719163.\<close>

definition valor :: "datetime \<Rightarrow> timestamp" where
  "valor t =
     (ymd2ord (year t) (month t) (day t) - 719163) * NS_DIA
       + ((hour t * 3600 + minute t * 60 + second t) * 1000000 + microsecond t) * 1000"

text \<open>\<^verbatim>\<open>.replace(hour=0, minute=0, second=0, microsecond=0)\<close>.\<close>

definition medianoche :: "datetime \<Rightarrow> datetime" where
  "medianoche t = t\<lparr>hour := 0, minute := 0, second := 0, microsecond := 0\<rparr>"

text \<open>
  \<^verbatim>\<open>dt - relativedelta(months=k)\<close> of dateutil, for \<open>1 \<le> k \<le> 12\<close>: the month moves back
  with a carry into the year, the day is cut to the length of the month reached, and
  \<^verbatim>\<open>dt.replace\<close> refuses a year below 1.
\<close>

definition restar_meses :: "int \<Rightarrow> datetime \<Rightarrow> exn + datetime" where
  "restar_meses k t =
     (let m0 = month t - k;
          y = (if m0 > 12 then year t + 1 else if m0 < 1 then year t - 1 else year t);
          m = (if m0 > 12 then m0 - 12 else if m0 < 1 then m0 + 12 else m0);
          d = min (days_in_month y m) (day t)
      in if y < 1 then Inl ValueError else Inr (t\<lparr>year := y, month := m, day := d\<rparr>))"

text \<open>\<^verbatim>\<open>.dt.floor('D')\<close> of a timestamp and \<^verbatim>\<open>.dt.days\<close> of a difference of timestamps.\<close>

definition floor_D :: "timestamp \<Rightarrow> timestamp" where
  "floor_D t = (t div NS_DIA) * NS_DIA"

definition dt_days :: "int \<Rightarrow> int" where
  "dt_days delta = delta div NS_DIA"

section \<open>The processor\<close>

text \<open>
  Lines 49-63, on the DataFrame after line 31, whose date column holds the timestamps
  \<open>fs\<close> and no \<^verbatim>\<open>NaT\<close>: the rows whose date, floored to the day, is before the limit;
  their age in days, from the date as it is, not floored; the four columns, ordered by age.
  At this point of the function the date and action columns exist, so the projection of
  line 56 can only miss the case column. Without stale rows the result is an empty
  DataFrame and the case column is not looked up.
\<close>

definition calcular_atrasados ::
  "library \<Rightarrow> datetime \<Rightarrow> datetime \<Rightarrow> timestamp list \<Rightarrow> frame \<Rightarrow> exn + frame" where
  "calcular_atrasados L actual limite fs df =
     (let antiguas = map (\<lambda>t. floor_D t < valor limite) fs;
          procesos_atrasados = select_rows antiguas df
      in if index procesos_atrasados = [] then Inr DataFrame_vacio
         else
           (let edades = map (\<lambda>t. dt_days (valor actual - t)) (select antiguas fs);
                con_edad = procesos_atrasados\<lparr>dias := Some edades\<rparr>
            in (case caso con_edad of
                  None \<Rightarrow> Inl (KeyError COL_CASO)
                | Some c \<Rightarrow>
                    Inr (take_rows (nargsort_desc L edades) (con_edad\<lparr>otras := []\<rparr>)))))"

text \<open>
  The body of the \<^verbatim>\<open>try\<close> block. \<open>now\<close> is what \<^verbatim>\<open>datetime.now()\<close> returns at line 43:
  the function reads the clock itself, it has no parameter for it. The DataFrame is
  changed in place (lines 25, 28 and 31), so the second component is the state in which
  the function leaves the object it was given, also when it raises. \<open>df_completo\<close>, the
  second value returned, is that same object.
\<close>

definition cuerpo :: "library \<Rightarrow> datetime \<Rightarrow> frame \<Rightarrow> (exn + salida) \<times> frame" where
  "cuerpo L now df =
     (let df1 = limpiar_caso df in
      (case fecha df1 of
         None \<Rightarrow> (Inl (KeyError COL_FECHA), df1)
       | Some fc \<Rightarrow>
           (let ds = a_datetime L fc;
                df2 = df1\<lparr>fecha := Some (Dates ds)\<rparr>;
                df3 = select_rows (map notna ds) df2;
                fs = validas ds
            in (case actuacion df3 of
                  None \<Rightarrow> (Inl (KeyError COL_ACTUACION), df3)
                | Some acts \<Rightarrow>
                    (case list_sort L (unique acts) of
                       Inl e \<Rightarrow> (Inl e, df3)
                     | Inr lista \<Rightarrow>
                         (let clasificado = take_rows (nargsort_desc L fs) df3;
                              actual = medianoche now
                          in (case restar_meses 2 actual of
                                Inl e \<Rightarrow> (Inl e, df3)
                              | Inr limite \<Rightarrow>
                                  (case calcular_atrasados L actual limite fs df3 of
                                     Inl e \<Rightarrow> (Inl e, df3)
                                   | Inr atrasados \<Rightarrow>
                                       (Inr \<lparr> lista_actuaciones = lista,
                                              df_completo = df3,
                                              df_clasificado_fecha = clasificado,
                                              resultado_atrasados = atrasados,
                                              fecha_actual = actual,
                                              fecha_limite = limite \<rparr>, df3)))))))))"

text \<open>
  The two handlers: \<^verbatim>\<open>except KeyError\<close> reports the missing column and
  \<^verbatim>\<open>except Exception\<close> anything else; both return six \<^verbatim>\<open>None\<close>, no view.
\<close>

fun manejar :: "exn + salida \<Rightarrow> fallo + salida" where
  "manejar (Inl (KeyError k)) = Inl (SchemaError k)"
| "manejar (Inl e) = Inl (ProcessingError e)"
| "manejar (Inr s) = Inr s"

definition procesar_datos :: "library \<Rightarrow> datetime \<Rightarrow> frame \<Rightarrow> (fallo + salida) \<times> frame" where
  "procesar_datos L now df = (case cuerpo L now df of (r, df') \<Rightarrow> (manejar r, df'))"

section \<open>The caller (lines 90-93)\<close>

text \<open>
  DataFrames are objects: the shell holds a reference to \<^verbatim>\<open>df_original\<close> and hands
  \<^verbatim>\<open>procesar_datos\<close> a reference to \<^verbatim>\<open>df_original.copy()\<close>. The store maps references
  to DataFrames; \<open>siguiente\<close> is the next free reference.
\<close>

record store =
  heap :: "nat \<Rightarrow> frame option"
  siguiente :: nat

text \<open>\<^verbatim>\<open>df.copy()\<close>: a new object with the same content.\<close>

definition copy :: "nat \<Rightarrow> store \<Rightarrow> (nat \<times> store) option" where
  "copy a s =
     (case heap s a of
        None \<Rightarrow> None
      | Some d \<Rightarrow> Some (siguiente s, s\<lparr>heap := (heap s)(siguiente s \<mapsto> d), siguiente := Suc (siguiente s)\<rparr>))"

text \<open>
  The call \<^verbatim>\<open>procesar_datos(ref)\<close>: the object behind the reference is left in the state
  the function gave it. The second value the function returns is that same object.
\<close>

definition procesar_datos_ref ::
  "library \<Rightarrow> datetime \<Rightarrow> nat \<Rightarrow> store \<Rightarrow> ((fallo + salida) \<times> store) option" where
  "procesar_datos_ref L now a s =
     (case heap s a of
        None \<Rightarrow> None
      | Some d \<Rightarrow>
          (case procesar_datos L now d of (r, d') \<Rightarrow> Some (r, s\<lparr>heap := (heap s)(a \<mapsto> d')\<rparr>)))"

text \<open>Line 93: \<^verbatim>\<open>procesar_datos(df_original.copy())\<close>.\<close>

definition shell ::
  "library \<Rightarrow> datetime \<Rightarrow> nat \<Rightarrow> store \<Rightarrow> ((fallo + salida) \<times> store) option" where
  "shell L now df_original s =
     (case copy df_original s of
        None \<Rightarrow> None
      | Some (a, s') \<Rightarrow> procesar_datos_ref L now a s')"

section \<open>The contract of the library, and instances of it\<close>

text \<open>
  What the pandas documentation promises of the two library functions: the coerced column
  has one entry for each value, and the sort returns a permutation of the positions that
  puts the keys in non-increasing order. The default \<^verbatim>\<open>kind='quicksort'\<close> promises
  nothing about keys that are equal.
\<close>

definition lib_ok :: "library \<Rightarrow> bool" where
  "lib_ok L =
     ((\<forall>c. length (to_datetime L c) = col_len c) \<and>
      (\<forall>ks. mset (nargsort_desc L ks) = mset [0..<length ks] \<and>
            sorted (rev (map (\<lambda>p. ks ! p) (nargsort_desc L ks)))))"

text \<open>
  A date parser for the instances: ISO dates \<^verbatim>\<open>YYYY-MM-DD\<close>, which \<^verbatim>\<open>pd.to_datetime\<close>
  reads as midnight of that day; any other value of an object column is \<^verbatim>\<open>NaT\<close>.
\<close>

definition digito :: "char \<Rightarrow> int option" where
  "digito c =
     (if CHR ''0'' \<le> c \<and> c \<le> CHR ''9'' then Some (int (of_char c) - 48) else None)"

fun numero :: "int \<Rightarrow> string \<Rightarrow> int option" where
  "numero acc [] = Some acc"
| "numero acc (c # cs) =
     (case digito c of None \<Rightarrow> None | Some d \<Rightarrow> numero (acc * 10 + d) cs)"

definition fecha_iso :: "string \<Rightarrow> timestamp option" where
  "fecha_iso s =
     (if length s = 10 \<and> s ! 4 = CHR ''-'' \<and> s ! 7 = CHR ''-'' then
        (case (numero 0 (take 4 s), numero 0 (take 2 (drop 5 s)), numero 0 (drop 8 s)) of
           (Some y, Some m, Some d) \<Rightarrow>
             (if 1 \<le> y \<and> 1 \<le> m \<and> m \<le> 12 \<and> 1 \<le> d \<and> d \<le> days_in_month y m
              then Some ((ymd2ord y m d - 719163) * NS_DIA) else None)
         | _ \<Rightarrow> None)
      else None)"

fun fecha_celda :: "cell \<Rightarrow> timestamp option" where
  "fecha_celda (Str s) = fecha_iso s"
| "fecha_celda (Num n) = None"
| "fecha_celda NaN = None"

fun to_datetime_iso :: "column \<Rightarrow> timestamp option list" where
  "to_datetime_iso (ObjCol xs) = map fecha_celda xs"
| "to_datetime_iso (IntCol xs) = map Some xs"

text \<open>
  Two sorts that keep the contract. The first keeps rows with equal keys in their order;
  the second reverses them. Both instances rank every value alike in \<open>orden_nan\<close>.
\<close>

definition nargsort_estable :: "int list \<Rightarrow> nat list" where
  "nargsort_estable ks = map snd (sort_key (\<lambda>p. - fst p) (zip ks [0..<length ks]))"

definition nargsort_inverso :: "int list \<Rightarrow> nat list" where
  "nargsort_inverso ks = map snd (sort_key (\<lambda>p. - fst p) (rev (zip ks [0..<length ks])))"

definition pandas_estable :: library where
  "pandas_estable =
     \<lparr> to_datetime = to_datetime_iso, nargsort_desc = nargsort_estable,
       orden_nan = (\<lambda>xs c. 0) \<rparr>"

definition pandas_inverso :: library where
  "pandas_inverso =
     \<lparr> to_datetime = to_datetime_iso, nargsort_desc = nargsort_inverso,
       orden_nan = (\<lambda>xs c. 0) \<rparr>"

section \<open>Notions used in the statements\<close>

text \<open>A DataFrame as pandas builds it: every column has one value for each row label.\<close>

definition wf_frame :: "frame \<Rightarrow> bool" where
  "wf_frame df =
     ((case caso df of None \<Rightarrow> True | Some c \<Rightarrow> col_len c = length (index df)) \<and>
      (case fecha df of None \<Rightarrow> True | Some f \<Rightarrow> fcol_len f = length (index df)) \<and>
      (case actuacion df of None \<Rightarrow> True | Some a \<Rightarrow> length a = length (index df)) \<and>
      (case dias df of None \<Rightarrow> True | Some d \<Rightarrow> length d = length (index df)) \<and>
      list_all (\<lambda>p. col_len (snd p) = length (index df)) (otras df))"

text \<open>
  The date column after line 28 (one entry for each row of the input, \<open>None\<close> where the
  value did not parse) and the DataFrame after line 31, the cleaned dataset.
\<close>

definition coercion :: "library \<Rightarrow> frame \<Rightarrow> timestamp option list" where
  "coercion L df = (case fecha df of None \<Rightarrow> [] | Some fc \<Rightarrow> a_datetime L fc)"

definition limpio :: "library \<Rightarrow> frame \<Rightarrow> frame" where
  "limpio L df =
     select_rows (map notna (coercion L df))
       ((limpiar_caso df)\<lparr>fecha := Some (Dates (coercion L df))\<rparr>)"

text \<open>The values of the date column and of the age column of a view.\<close>

definition fechas_de :: "frame \<Rightarrow> timestamp option list" where
  "fechas_de df = (case fecha df of Some (Dates ds) \<Rightarrow> ds | _ \<Rightarrow> [])"

definition dias_de :: "frame \<Rightarrow> int list" where
  "dias_de df = (case dias df of Some d \<Rightarrow> d | None \<Rightarrow> [])"

definition actuaciones_de :: "frame \<Rightarrow> cell list" where
  "actuaciones_de df = (case actuacion df of Some a \<Rightarrow> a | None \<Rightarrow> [])"

text \<open>A value of Python's \<^verbatim>\<open>datetime\<close>.\<close>

definition fecha_valida :: "datetime \<Rightarrow> bool" where
  "fecha_valida t =
     (1 \<le> year t \<and> year t \<le> 9999 \<and> 1 \<le> month t \<and> month t \<le> 12 \<and>
      1 \<le> day t \<and> day t \<le> days_in_month (year t) (month t) \<and>
      0 \<le> hour t \<and> hour t < 24 \<and> 0 \<le> minute t \<and> minute t < 60 \<and>
      0 \<le> second t \<and> second t < 60 \<and> 0 \<le> microsecond t \<and> microsecond t < 1000000)"

text \<open>
  The specification's cutoff, in its words: two calendar months before, in the civil
  calendar, the day of the month cut to the length of the month reached. Months are
  counted from year 0, twelve to a year.
\<close>

definition limite_civil :: "datetime \<Rightarrow> datetime" where
  "limite_civil t =
     (let n = 12 * year t + (month t - 1) - 2;
          y = n div 12;
          m = n mod 12 + 1
      in t\<lparr>year := y, month := m, day := min (day t) (days_in_month y m)\<rparr>)"

text \<open>A case identifier without the quote character, and a view whose case column has none.\<close>

fun sin_comilla :: "cell \<Rightarrow> bool" where
  "sin_comilla (Str s) = (CHR 0x27 \<notin> set s)"
| "sin_comilla (Num n) = True"
| "sin_comilla NaN = True"

fun col_sin_comillas :: "column \<Rightarrow> bool" where
  "col_sin_comillas (ObjCol xs) = list_all sin_comilla xs"
| "col_sin_comillas (IntCol xs) = True"

definition vista_sin_comillas :: "frame \<Rightarrow> bool" where
  "vista_sin_comillas v = (case caso v of None \<Rightarrow> True | Some c \<Rightarrow> col_sin_comillas c)"

section \<open>Datasets and clock readings for the concrete cases\<close>

definition reloj_abril :: datetime where
  "reloj_abril =
     \<lparr> year = 2023, month = 4, day = 1, hour = 10, minute = 30, second = 0,
       microsecond = 0 \<rparr>"

text \<open>Two rows whose dates parse; the second has no action label.\<close>

definition df_mixto :: frame where
  "df_mixto =
     \<lparr> index = [0, 1],
       caso = Some (ObjCol [Str ''123'', Str ''456'']),
       fecha = Some (Raw (ObjCol [Str ''2023-01-10'', Str ''2023-03-20''])),
       actuacion = Some [Str ''Filed'', NaN],
       dias = None, otras = [] \<rparr>"

text \<open>One recent row, and no case column.\<close>

definition df_sin_caso :: frame where
  "df_sin_caso =
     \<lparr> index = [0],
       caso = None,
       fecha = Some (Raw (ObjCol [Str ''2023-03-20''])),
       actuacion = Some [Str ''Filed''],
       dias = None, otras = [] \<rparr>"

text \<open>No date column; a date column and no action column.\<close>

definition df_sin_fecha :: frame where
  "df_sin_fecha =
     \<lparr> index = [0],
       caso = Some (ObjCol [Str ''123'']),
       fecha = None,
       actuacion = None,
       dias = None, otras = [] \<rparr>"

definition df_sin_actuacion :: frame where
  "df_sin_actuacion =
     \<lparr> index = [0],
       caso = Some (ObjCol [Str ''123'']),
       fecha = Some (Raw (ObjCol [Str ''2023-03-20''])),
       actuacion = None,
       dias = None, otras = [] \<rparr>"

text \<open>
  The first scenario of the specification: a quoted case identifier with a date of January,
  and a row whose date does not parse.
\<close>

definition df_escenario :: frame where
  "df_escenario =
     \<lparr> index = [0, 1],
       caso = Some (ObjCol [Str (CHR 0x27 # ''123'' @ [CHR 0x27]), Str ''456'']),
       fecha = Some (Raw (ObjCol [Str ''2023-01-10'', Str ''not-a-date''])),
       actuacion = Some [Str ''Filed'', Str ''Served''],
       dias = None, otras = [] \<rparr>"

definition reloj_enero :: datetime where
  "reloj_enero =
     \<lparr> year = 2023, month = 1, day = 15, hour = 9, minute = 0, second = 0,
       microsecond = 0 \<rparr>"

definition reloj_abril_tarde :: datetime where
  "reloj_abril_tarde =
     \<lparr> year = 2023, month = 4, day = 1, hour = 23, minute = 59, second = 59,
       microsecond = 999999 \<rparr>"

text \<open>A store with the scenario's DataFrame as its only object.\<close>

definition almacen :: store where
  "almacen = \<lparr> heap = (\<lambda>a. None)(0 := Some df_escenario), siguiente = 1 \<rparr>"

text \<open>The object behind a reference when a call has returned.\<close>

definition objeto_tras :: "nat \<Rightarrow> ('r \<times> store) option \<Rightarrow> frame option" where
  "objeto_tras a res = (case res of None \<Rightarrow> None | Some (r, s) \<Rightarrow> heap s a)"

definition reloj_julio :: datetime where
  "reloj_julio =
     \<lparr> year = 2023, month = 7, day = 1, hour = 8, minute = 0, second = 0,
       microsecond = 0 \<rparr>"

text \<open>
  Four rows: two stale in April 2023, one recent, and one whose date does not parse; two
  identifiers with quotes; a repeated label.
\<close>

definition df_ejemplo :: frame where
  "df_ejemplo =
     \<lparr> index = [0, 1, 2, 3],
       caso = Some (ObjCol [Str (CHR 0x27 # ''A1'' @ [CHR 0x27]), Str ''B2'',
                            Str (''C'' @ [CHR 0x27] @ ''3''), Str ''D4'']),
       fecha = Some (Raw (ObjCol [Str ''2023-01-10'', Str ''not-a-date'', Str ''2023-03-20'',
                                  Str ''2022-12-05''])),
       actuacion = Some [Str ''Served'', Str ''Filed'', Str ''Filed'', Str ''Archived''],
       dias = None, otras = [] \<rparr>"

text \<open>What the processor leaves and returns for it on 1 April 2023.\<close>

definition limpio_ejemplo :: frame where
  "limpio_ejemplo =
     \<lparr> index = [0, 2, 3],
       caso = Some (ObjCol [Str ''A1'', Str ''C3'', Str ''D4'']),
       fecha = Some (Dates [Some 1673308800000000000, Some 1679270400000000000,
                            Some 1670198400000000000]),
       actuacion = Some [Str ''Served'', Str ''Filed'', Str ''Archived''],
       dias = None, otras = [] \<rparr>"

definition salida_ejemplo :: salida where
  "salida_ejemplo =
     \<lparr> lista_actuaciones = [Str ''Archived'', Str ''Filed'', Str ''Served''],
       df_completo = limpio_ejemplo,
       df_clasificado_fecha =
         \<lparr> index = [2, 0, 3],
           caso = Some (ObjCol [Str ''C3'', Str ''A1'', Str ''D4'']),
           fecha = Some (Dates [Some 1679270400000000000, Some 1673308800000000000,
                                Some 1670198400000000000]),
           actuacion = Some [Str ''Filed'', Str ''Served'', Str ''Archived''],
           dias = None, otras = [] \<rparr>,
       resultado_atrasados =
         \<lparr> index = [3, 0],
           caso = Some (ObjCol [Str ''D4'', Str ''A1'']),
           fecha = Some (Dates [Some 1670198400000000000, Some 1673308800000000000]),
           actuacion = Some [Str ''Archived'', Str ''Served''],
           dias = Some [117, 81], otras = [] \<rparr>,
       fecha_actual =
         \<lparr> year = 2023, month = 4, day = 1, hour = 0, minute = 0, second = 0,
           microsecond = 0 \<rparr>,
       fecha_limite =
         \<lparr> year = 2023, month = 2, day = 1, hour = 0, minute = 0, second = 0,
           microsecond = 0 \<rparr> \<rparr>"

text \<open>Eighteen rows with the same date, and numeric case identifiers.\<close>

definition df_empate :: frame where
  "df_empate =
     \<lparr> index = [0, 1, 2, 3, 4, 5, 6, 7, 8, 9, 10, 11, 12, 13, 14, 15, 16, 17],
       caso = Some (IntCol [100, 101, 102, 103, 104, 105, 106, 107, 108, 109, 110, 111, 112,
                            113, 114, 115, 116, 117]),
       fecha = Some (Raw (ObjCol
         [Str ''2023-03-20'', Str ''2023-03-20'', Str ''2023-03-20'', Str
          ''2023-03-20'', Str ''2023-03-20'', Str ''2023-03-20'', Str ''2023-03-20'',
          Str ''2023-03-20'', Str ''2023-03-20'', Str ''2023-03-20'', Str
          ''2023-03-20'', Str ''2023-03-20'', Str ''2023-03-20'', Str ''2023-03-20'',
          Str ''2023-03-20'', Str ''2023-03-20'', Str ''2023-03-20'', Str ''2023-03-20''])),
       actuacion = Some
         [Str ''Filed'', Str ''Filed'', Str ''Filed'', Str ''Filed'', Str ''Filed'', Str
          ''Filed'', Str ''Filed'', Str ''Filed'', Str ''Filed'', Str ''Filed'', Str
          ''Filed'', Str ''Filed'', Str ''Filed'', Str ''Filed'', Str ''Filed'', Str
          ''Filed'', Str ''Filed'', Str ''Filed''],
       dias = None, otras = [] \<rparr>"

text \<open>A view of a run, the empty DataFrame when the run failed.\<close>

definition vista :: "(salida \<Rightarrow> frame) \<Rightarrow> (fallo + salida) \<times> frame \<Rightarrow> frame" where
  "vista v r = (case fst r of Inr out \<Rightarrow> v out | Inl e \<Rightarrow> DataFrame_vacio)"

text \<open>
  Three recent rows whose action column holds numeric codes and one empty field: pandas
  reads it as the float64 column \<^verbatim>\<open>[2.0, nan, 1.0]\<close>.
\<close>

definition df_codigos :: frame where
  "df_codigos =
     \<lparr> index = [0, 1, 2],
       caso = Some (ObjCol [Str ''A1'', Str ''B2'', Str ''C3'']),
       fecha = Some (Raw (ObjCol [Str ''2023-03-20'', Str ''2023-03-21'', Str ''2023-03-22''])),
       actuacion = Some [Num 2, NaN, Num 1],
       dias = None, otras = [] \<rparr>"

text \<open>The list of actions of a run, \<open>None\<close> when the run failed.\<close>

definition lista_de :: "(fallo + salida) \<times> frame \<Rightarrow> cell list option" where
  "lista_de r = (case fst r of Inr out \<Rightarrow> Some (lista_actuaciones out) | Inl e \<Rightarrow> None)"

section \<open>Evaluation of the concrete cases\<close>

lemmas eval_defs = procesar_datos_def cuerpo_def calcular_atrasados_def limpiar_caso_def
  quitar_comillas_def select_rows_def take_rows_def take_pos_def notna_def unique_def
  list_sort_def medianoche_def restar_meses_def days_in_month_def is_leap_def valor_def
  ymd2ord_def days_before_year_def days_before_month_def NS_DIA_def floor_D_def dt_days_def
  DataFrame_vacio_def pandas_estable_def nargsort_estable_def fecha_iso_def digito_def
  coercion_def Let_def

section \<open>Lemmas about the DataFrame operations\<close>

lemma select_Nil [simp]: "select m [] = []" "select [] xs = []"
  by (simp_all add: select_def)

lemma select_Cons [simp]:
  "select (b # m) (x # xs) = (if b then x # select m xs else select m xs)"
  by (simp add: select_def)

lemma set_select: "set (select m xs) \<subseteq> set xs"
  by (auto simp: select_def dest: set_zip_rightD)

lemma select_map: "select m (map f xs) = map f (select m xs)"
proof (induction xs arbitrary: m)
  case Nil
  then show ?case by simp
next
  case (Cons x xs)
  then show ?case by (cases m) simp_all
qed

lemma select_positions:
  "length m = length xs \<Longrightarrow> select m xs = map (\<lambda>p. xs ! p) (filter (\<lambda>p. m ! p) [0..<length xs])"
proof (induction xs arbitrary: m rule: rev_induct)
  case Nil
  then show ?case by simp
next
  case (snoc x xs)
  then obtain m' b where m: "m = m' @ [b]" and len: "length m' = length xs"
    by (cases m rule: rev_cases) auto
  have "select m (xs @ [x]) = select m' xs @ (if b then [x] else [])"
    using len by (simp add: m select_def)
  also have "select m' xs = map (\<lambda>p. xs ! p) (filter (\<lambda>p. m' ! p) [0..<length xs])"
    using snoc.IH len by simp
  also have "\<dots> = map (\<lambda>p. (xs @ [x]) ! p) (filter (\<lambda>p. m ! p) [0..<length xs])"
  proof (rule map_cong)
    show "filter (\<lambda>p. m' ! p) [0..<length xs] = filter (\<lambda>p. m ! p) [0..<length xs]"
      using len by (intro filter_cong) (auto simp: m nth_append)
  qed (auto simp: nth_append)
  finally show ?case using len by (simp add: m nth_append)
qed

lemma length_select_eq:
  "length xs = length ys \<Longrightarrow> length (select m xs) = length (select m ys)"
proof (induction xs ys arbitrary: m rule: list_induct2)
  case Nil
  then show ?case by simp
next
  case (Cons x xs y ys)
  then show ?case by (cases m) simp_all
qed

lemma select_notna: "select (map notna ds) ds = map Some (validas ds)"
  by (induction ds rule: validas.induct) (simp_all add: notna_def)

lemma length_validas: "length (validas ds) = length (select (map notna ds) xs)" if "length xs = length ds"
  using that
proof (induction ds arbitrary: xs rule: validas.induct)
  case 1
  then show ?case by simp
next
  case (2 ds)
  then show ?case by (cases xs) (simp_all add: notna_def)
next
  case (3 t ds)
  then show ?case by (cases xs) (simp_all add: notna_def)
qed

lemma distinct_select: "distinct xs \<Longrightarrow> distinct (select m xs)"
proof (induction xs arbitrary: m)
  case Nil
  then show ?case by simp
next
  case (Cons x xs)
  then show ?case using set_select[of _ xs] by (cases m) auto
qed

section \<open>The shape of a successful run\<close>

lemma fecha_limpiar_caso [simp]: "fecha (limpiar_caso df) = fecha df"
  by (simp add: limpiar_caso_def split: option.splits column.splits)

lemma actuacion_limpiar_caso [simp]: "actuacion (limpiar_caso df) = actuacion df"
  by (simp add: limpiar_caso_def split: option.splits column.splits)

lemma index_limpiar_caso [simp]: "index (limpiar_caso df) = index df"
  by (simp add: limpiar_caso_def split: option.splits column.splits)

lemma manejar_Inr: "manejar r = Inr s \<Longrightarrow> r = Inr s"
  by (cases r rule: manejar.cases) simp_all

lemma cuerpo_Inr:
  assumes "cuerpo L now df = (Inr out, df')"
  shows "fecha df \<noteq> None"
    and "df' = limpio L df"
    and "df_completo out = limpio L df"
    and "df_clasificado_fecha out =
           take_rows (nargsort_desc L (validas (coercion L df))) (limpio L df)"
    and "fecha_actual out = medianoche now"
    and "restar_meses 2 (medianoche now) = Inr (fecha_limite out)"
    and "calcular_atrasados L (medianoche now) (fecha_limite out)
           (validas (coercion L df)) (limpio L df) = Inr (resultado_atrasados out)"
    and "\<exists>acts. actuacion (limpio L df) = Some acts \<and>
           list_sort L (unique acts) = Inr (lista_actuaciones out)"
  using assms
  by (auto simp: cuerpo_def limpio_def coercion_def Let_def
           split: option.splits sum.splits)

lemma procesar_datos_Inr:
  "procesar_datos L now df = (Inr out, df') \<Longrightarrow> cuerpo L now df = (Inr out, df')"
  by (auto simp: procesar_datos_def split: prod.splits dest: manejar_Inr)

section \<open>The two instances keep the contract\<close>

lemma length_to_datetime_iso: "length (to_datetime_iso c) = col_len c"
  by (cases c) simp_all

lemma sorted_rev_iff_uminus: "sorted (rev (xs :: int list)) = sorted (map uminus xs)"
  by (simp add: sorted_wrt_rev sorted_map)

lemma nargsort_by_sort_key:
  fixes ks :: "int list"
  assumes "mset zs = mset (zip ks [0..<length ks])"
  defines "ps \<equiv> map snd (sort_key (\<lambda>p. - fst p) zs)"
  shows "mset ps = mset [0..<length ks]"
    and "sorted (rev (map (\<lambda>p. ks ! p) ps))"
proof -
  let ?S = "sort_key (\<lambda>p. - fst p) zs"
  have "mset ?S = mset (zip ks [0..<length ks])"
    using assms(1) by simp
  then have set_S: "set ?S = set (zip ks [0..<length ks])"
    by (rule mset_eq_setD)
  have "mset ps = image_mset snd (mset ?S)"
    unfolding ps_def by (simp only: mset_map)
  also have "\<dots> = image_mset snd (mset (zip ks [0..<length ks]))"
    using assms(1) by (simp only: mset_sort)
  also have "\<dots> = mset (map snd (zip ks [0..<length ks]))"
    by (simp only: mset_map)
  also have "map snd (zip ks [0..<length ks]) = [0..<length ks]"
    by simp
  finally show "mset ps = mset [0..<length ks]" .
  have "ks ! snd p = fst p" if "p \<in> set ?S" for p
  proof -
    from that have "p \<in> set (zip ks [0..<length ks])"
      unfolding set_S .
    then show ?thesis
      by (auto simp: set_zip)
  qed
  then have "map (\<lambda>p. ks ! p) ps = map fst ?S"
    by (simp add: ps_def)
  moreover have "sorted (map uminus (map fst ?S))"
    using sorted_sort_key [of "\<lambda>p. - fst p" zs] by (simp add: comp_def)
  ultimately show "sorted (rev (map (\<lambda>p. ks ! p) ps))"
    by (simp add: sorted_rev_iff_uminus)
qed

lemma lib_ok_estable: "lib_ok pandas_estable"
  unfolding lib_ok_def pandas_estable_def nargsort_estable_def
  using nargsort_by_sort_key [OF refl] by (simp add: length_to_datetime_iso)

lemma lib_ok_inverso: "lib_ok pandas_inverso"
  unfolding lib_ok_def pandas_inverso_def nargsort_inverso_def
  using nargsort_by_sort_key [of "rev (zip ks [0..<length ks])" for ks]
  by (simp add: length_to_datetime_iso)

section \<open>Reordering by a permutation of the positions\<close>

lemma mset_take_pos:
  assumes "mset ps = mset [0..<length xs]"
  shows "mset (take_pos ps xs) = mset xs"
proof -
  have "mset (take_pos ps xs) = image_mset (\<lambda>p. xs ! p) (mset ps)"
    by (simp add: take_pos_def)
  also have "\<dots> = mset (map (\<lambda>p. xs ! p) [0..<length xs])"
    by (simp only: assms mset_map)
  finally show ?thesis
    by (simp add: map_nth)
qed

lemma set_take_pos:
  "mset ps = mset [0..<length xs] \<Longrightarrow> set (take_pos ps xs) = set xs"
  using mset_take_pos [of ps xs] by (metis set_mset_mset)

lemma length_take_pos [simp]: "length (take_pos ps xs) = length ps"
  by (simp add: take_pos_def)

lemma perm_positions:
  assumes "mset ps = mset [0..<n]"
  shows "length ps = n" and "set ps = {0..<n}" and "distinct ps"
proof -
  show "length ps = n"
    using assms by (metis length_upt mset_eq_length minus_nat.diff_0)
  show "set ps = {0..<n}"
    using assms by (metis mset_eq_setD set_upt)
  show "distinct ps"
    using assms by (metis distinct_upt mset_eq_imp_distinct_iff)
qed

lemma lib_ok_length: "lib_ok L \<Longrightarrow> length (to_datetime L c) = col_len c"
  by (simp add: lib_ok_def)

lemma lib_ok_perm: "lib_ok L \<Longrightarrow> mset (nargsort_desc L ks) = mset [0..<length ks]"
  by (simp add: lib_ok_def)

lemma lib_ok_sorted:
  "lib_ok L \<Longrightarrow> sorted (rev (map (\<lambda>p. ks ! p) (nargsort_desc L ks)))"
  by (simp add: lib_ok_def)

section \<open>The example run\<close>

lemma ejemplo_abril:
  "procesar_datos pandas_estable reloj_abril df_ejemplo = (Inr salida_ejemplo, limpio_ejemplo)"
  by (simp add: eval_defs df_ejemplo_def reloj_abril_def salida_ejemplo_def limpio_ejemplo_def)

lemma wf_ejemplo: "wf_frame df_ejemplo"
  by (simp add: wf_frame_def df_ejemplo_def)

lemma coercion_ejemplo:
  "coercion pandas_estable df_ejemplo =
     [Some 1673308800000000000, None, Some 1679270400000000000, Some 1670198400000000000]"
  by (simp add: eval_defs df_ejemplo_def)

section \<open>The cleaned dataset\<close>

lemma wf_frame_iff:
  "wf_frame df \<longleftrightarrow>
     (\<forall>c. caso df = Some c \<longrightarrow> col_len c = length (index df)) \<and>
     (\<forall>f. fecha df = Some f \<longrightarrow> fcol_len f = length (index df)) \<and>
     (\<forall>a. actuacion df = Some a \<longrightarrow> length a = length (index df)) \<and>
     (\<forall>d. dias df = Some d \<longrightarrow> length d = length (index df)) \<and>
     (\<forall>p \<in> set (otras df). col_len (snd p) = length (index df))"
  by (auto simp: wf_frame_def list_all_iff split: option.splits)

lemma length_select: "length (select m xs) = length (filter id (take (length xs) m))"
proof (induction xs arbitrary: m)
  case Nil
  then show ?case by simp
next
  case (Cons x xs)
  then show ?case by (cases m) simp_all
qed

lemma col_len_select_col:
  "col_len (select_col m c) = length (filter id (take (col_len c) m))"
  by (cases c) (simp_all add: length_select)

lemma fcol_len_select_fcol:
  "fcol_len (select_fcol m f) = length (filter id (take (fcol_len f) m))"
  by (cases f) (simp_all add: length_select col_len_select_col)

lemma wf_select_rows: "wf_frame df \<Longrightarrow> wf_frame (select_rows m df)"
  unfolding wf_frame_iff select_rows_def
  by (auto simp: length_select col_len_select_col fcol_len_select_fcol)

lemma wf_limpiar_caso: "wf_frame df \<Longrightarrow> wf_frame (limpiar_caso df)"
  unfolding wf_frame_iff limpiar_caso_def
  by (auto split: option.splits column.splits)

lemma length_coercion:
  assumes "lib_ok L" and "wf_frame df" and "fecha df \<noteq> None"
  shows "length (coercion L df) = length (index df)"
proof -
  from assms(3) obtain fc where fc: "fecha df = Some fc" by auto
  then have "fcol_len fc = length (index df)"
    using assms(2) by (simp add: wf_frame_iff)
  then show ?thesis
    using assms(1) by (cases fc) (simp_all add: coercion_def fc lib_ok_length)
qed

lemma index_limpio: "index (limpio L df) = select (map notna (coercion L df)) (index df)"
  by (simp add: limpio_def select_rows_def)

lemma fecha_limpio: "fecha (limpio L df) = Some (Dates (map Some (validas (coercion L df))))"
  by (simp add: limpio_def select_rows_def select_notna)

lemma fechas_de_limpio: "fechas_de (limpio L df) = map Some (validas (coercion L df))"
  by (simp add: fechas_de_def fecha_limpio)

lemma actuacion_limpio:
  "actuacion (limpio L df) = map_option (select (map notna (coercion L df))) (actuacion df)"
  by (simp add: limpio_def select_rows_def)

lemma caso_limpio:
  "caso (limpio L df) =
     map_option (select_col (map notna (coercion L df))) (caso (limpiar_caso df))"
  by (simp add: limpio_def select_rows_def)

lemma wf_limpio:
  assumes "lib_ok L" and "wf_frame df" and "fecha df \<noteq> None"
  shows "wf_frame (limpio L df)"
proof -
  have "wf_frame ((limpiar_caso df)\<lparr>fecha := Some (Dates (coercion L df))\<rparr>)"
    using wf_limpiar_caso [OF assms(2)] length_coercion [OF assms]
    by (simp add: wf_frame_iff)
  then show ?thesis
    unfolding limpio_def by (rule wf_select_rows)
qed

lemma length_validas_limpio:
  assumes "lib_ok L" and "wf_frame df" and "fecha df \<noteq> None"
  shows "length (validas (coercion L df)) = length (index (limpio L df))"
  unfolding index_limpio
  by (rule length_validas) (simp add: length_coercion [OF assms])

section \<open>The stale view\<close>

lemma calcular_atrasados_Inr:
  assumes "calcular_atrasados L actual limite fs df = Inr R"
  defines "msk \<equiv> map (\<lambda>t. floor_D t < valor limite) fs"
  defines "edades \<equiv> map (\<lambda>t. dt_days (valor actual - t)) (select msk fs)"
  shows "(index (select_rows msk df) = [] \<and> R = DataFrame_vacio) \<or>
         (index (select_rows msk df) \<noteq> [] \<and> caso df \<noteq> None \<and>
          R = take_rows (nargsort_desc L edades)
                ((select_rows msk df)\<lparr>dias := Some edades, otras := []\<rparr>))"
  using assms(1) unfolding calcular_atrasados_def msk_def edades_def Let_def
  by (auto simp: select_rows_def split: if_splits option.splits)

lemma index_take_rows [simp]: "index (take_rows ps df) = take_pos ps (index df)"
  by (simp add: take_rows_def)

lemma caso_take_rows [simp]: "caso (take_rows ps df) = map_option (take_col ps) (caso df)"
  by (simp add: take_rows_def)

lemma fecha_take_rows [simp]: "fecha (take_rows ps df) = map_option (take_fcol ps) (fecha df)"
  by (simp add: take_rows_def)

lemma dias_take_rows [simp]: "dias (take_rows ps df) = map_option (take_pos ps) (dias df)"
  by (simp add: take_rows_def)

lemma index_select_rows [simp]: "index (select_rows m df) = select m (index df)"
  by (simp add: select_rows_def)

lemma caso_select_rows [simp]: "caso (select_rows m df) = map_option (select_col m) (caso df)"
  by (simp add: select_rows_def)

lemma fecha_select_rows [simp]:
  "fecha (select_rows m df) = map_option (select_fcol m) (fecha df)"
  by (simp add: select_rows_def)

lemma dias_select_rows [simp]: "dias (select_rows m df) = map_option (select m) (dias df)"
  by (simp add: select_rows_def)

lemma set_take_pos_subset: "set ps \<subseteq> {0..<length xs} \<Longrightarrow> set (take_pos ps xs) \<subseteq> set xs"
  by (auto simp: take_pos_def)

section \<open>The calendar\<close>

lemma month_disj:
  assumes "1 \<le> (m::int)" and "m \<le> 12"
  shows "m = 1 \<or> m = 2 \<or> m = 3 \<or> m = 4 \<or> m = 5 \<or> m = 6
    \<or> m = 7 \<or> m = 8 \<or> m = 9 \<or> m = 10 \<or> m = 11 \<or> m = 12"
  using assms by presburger

lemma meses_div:
  assumes "1 \<le> (m::int)" and "m \<le> 12"
  shows "(12 * y + (m - 1) - 2) div 12 = (if m \<le> 2 then y - 1 else y)"
    and "(12 * y + (m - 1) - 2) mod 12 + 1 = (if m \<le> 2 then m + 10 else m - 2)"
proof -
  have e: "12 * y + (m - 1) - 2 = (m - 3) + y * 12" by simp
  show "(12 * y + (m - 1) - 2) div 12 = (if m \<le> 2 then y - 1 else y)"
    unfolding e div_mult_self1 [of 12, simplified]
    using month_disj [OF assms] by auto
  show "(12 * y + (m - 1) - 2) mod 12 + 1 = (if m \<le> 2 then m + 10 else m - 2)"
    unfolding e mod_mult_self1
    using month_disj [OF assms] by auto
qed

lemma restar_meses_civil:
  assumes "1 \<le> month t" and "month t \<le> 12" and "restar_meses 2 t = Inr l"
  shows "l = limite_civil t"
proof -
  let ?y = "if month t \<le> 2 then year t - 1 else year t"
  let ?m = "if month t \<le> 2 then month t + 10 else month t - 2"
  have "limite_civil t = t\<lparr>year := ?y, month := ?m, day := min (day t) (days_in_month ?y ?m)\<rparr>"
    unfolding limite_civil_def Let_def meses_div [OF assms(1,2)] by (rule refl)
  moreover have "l = t\<lparr>year := ?y, month := ?m, day := min (day t) (days_in_month ?y ?m)\<rparr>"
    using assms by (auto simp: restar_meses_def Let_def min.commute add.commute split: if_splits)
  ultimately show ?thesis by simp
qed

lemma div_succ:
  fixes z k :: int
  assumes "1 < k"
  shows "(z + 1) div k = z div k + (if k dvd z + 1 then 1 else 0)"
proof -
  have r: "0 \<le> z mod k" "z mod k < k"
    using assms by simp_all
  have one: "(1::int) div k = 0" "(1::int) mod k = 1"
    using assms by simp_all
  have d: "(z + 1) div k = z div k + (z mod k + 1) div k"
    by (simp add: div_add1_eq [of z 1 k] one)
  have m: "(z + 1) mod k = (z mod k + 1) mod k"
    by (simp add: mod_add_left_eq)
  show ?thesis
  proof (cases "z mod k + 1 = k")
    case True
    then show ?thesis
      using assms by (simp add: d m dvd_eq_mod_eq_0)
  next
    case False
    with r have lt: "z mod k + 1 < k" by simp
    then have "(z mod k + 1) div k = 0" "(z mod k + 1) mod k = z mod k + 1"
      using r by simp_all
    then show ?thesis
      using r by (simp add: d m dvd_eq_mod_eq_0)
  qed
qed

lemma days_before_year_prev: "days_before_year (y - 1) + 365 \<le> days_before_year y"
proof -
  define z where "z = y - 2"
  have y: "y - 1 = z + 1" "y - 1 - 1 = z" by (simp_all add: z_def)
  have dv: "(4::int) dvd z + 1" if "(100::int) dvd z + 1"
    using that by (rule dvd_trans [rotated]) simp
  have "z div 4 - z div 100 + z div 400 \<le> (z + 1) div 4 - (z + 1) div 100 + (z + 1) div 400"
    unfolding div_succ [of 4 z, simplified] div_succ [of 100 z, simplified]
      div_succ [of 400 z, simplified]
    using dv by simp
  then show ?thesis
    unfolding days_before_year_def y by simp
qed

lemma ymd2ord_restar_meses:
  assumes "1 \<le> month t" and "month t \<le> 12" and "restar_meses 2 t = Inr l"
  shows "ymd2ord (year l) (month l) (day l) \<le> ymd2ord (year t) (month t) (day t)"
proof -
  have d: "day l \<le> day t"
    using assms(3) by (auto simp: restar_meses_def Let_def split: if_splits)
  have ym: "year l = (if month t \<le> 2 then year t - 1 else year t)"
    "month l = (if month t \<le> 2 then month t + 10 else month t - 2)"
    using assms by (auto simp: restar_meses_def Let_def split: if_splits)
  have "days_before_year (year l) + days_before_month (year l) (month l)
          \<le> days_before_year (year t) + days_before_month (year t) (month t)"
    using month_disj [OF assms(1,2)] days_before_year_prev [of "year t"]
    unfolding ym by (elim disjE) (simp_all add: days_before_month_def)
  with d show ?thesis by (simp add: ymd2ord_def)
qed

lemma valor_medianoche:
  "valor (medianoche t) = (ymd2ord (year t) (month t) (day t) - 719163) * NS_DIA"
  by (simp add: valor_def medianoche_def)

lemma restar_meses_hora:
  assumes "restar_meses k t = Inr l"
  shows "hour l = hour t" "minute l = minute t" "second l = second t"
    "microsecond l = microsecond t"
  using assms by (auto simp: restar_meses_def Let_def split: if_splits)

lemma valor_limite:
  assumes "restar_meses 2 (medianoche t) = Inr l"
  shows "valor l = (ymd2ord (year l) (month l) (day l) - 719163) * NS_DIA"
  using restar_meses_hora [OF assms] by (simp add: valor_def medianoche_def)

lemma valor_limite_le:
  assumes "1 \<le> month t" and "month t \<le> 12" and "restar_meses 2 (medianoche t) = Inr l"
  shows "valor l \<le> valor (medianoche t)"
proof -
  have "ymd2ord (year l) (month l) (day l) \<le> ymd2ord (year t) (month t) (day t)"
    using ymd2ord_restar_meses [OF _ _ assms(3)] assms(1,2) by (simp add: medianoche_def)
  then show ?thesis
    unfolding valor_limite [OF assms(3)] valor_medianoche by (simp add: NS_DIA_def)
qed

lemma before_floor:
  assumes "floor_D t < q * NS_DIA"
  shows "t < q * NS_DIA"
proof -
  have pos: "0 < NS_DIA" by (simp add: NS_DIA_def)
  from assms have "t div NS_DIA < q"
    using pos by (simp add: floor_D_def)
  then have "t div NS_DIA + 1 \<le> q" by simp
  then have "(t div NS_DIA + 1) * NS_DIA \<le> q * NS_DIA"
    using pos by (intro mult_right_mono) simp_all
  moreover have "t = t div NS_DIA * NS_DIA + t mod NS_DIA" by simp
  moreover have "t mod NS_DIA < NS_DIA" using pos by simp
  moreover have "(t div NS_DIA + 1) * NS_DIA = t div NS_DIA * NS_DIA + NS_DIA"
    by (simp add: distrib_right)
  ultimately show ?thesis by linarith
qed

lemma dt_days_nonneg: "0 \<le> d \<Longrightarrow> 0 \<le> dt_days d"
  by (simp add: dt_days_def NS_DIA_def pos_imp_zdiv_nonneg_iff)

section \<open>Rows of the stale view\<close>

lemma nth_mem_select:
  assumes "distinct xs" and "length m = length xs" and "k < length xs"
  shows "xs ! k \<in> set (select m xs) \<longleftrightarrow> m ! k"
proof
  assume "xs ! k \<in> set (select m xs)"
  then obtain p where "p < length xs" "m ! p" "xs ! p = xs ! k"
    unfolding select_positions [OF assms(2)] by auto
  then show "m ! k"
    using assms(1,3) by (simp add: nth_eq_iff_index_eq)
next
  assume "m ! k"
  then show "xs ! k \<in> set (select m xs)"
    unfolding select_positions [OF assms(2)] using assms(3) by auto
qed

lemma index_atrasados:
  assumes "lib_ok L" and "length fs = length (index df)"
    and "calcular_atrasados L actual limite fs df = Inr R"
  shows "mset (index R) = mset (select (map (\<lambda>t. floor_D t < valor limite) fs) (index df))"
proof -
  let ?m = "map (\<lambda>t. floor_D t < valor limite) fs"
  let ?e = "map (\<lambda>t. dt_days (valor actual - t)) (select ?m fs)"
  from calcular_atrasados_Inr [OF assms(3)]
  consider "select ?m (index df) = []" "R = DataFrame_vacio"
    | "R = take_rows (nargsort_desc L ?e) ((select_rows ?m df)\<lparr>dias := Some ?e, otras := []\<rparr>)"
    by auto
  then show ?thesis
  proof cases
    case 1
    then show ?thesis by (simp add: DataFrame_vacio_def)
  next
    case 2
    have "length ?e = length (select ?m (index df))"
      by (simp add: length_select assms(2))
    then have "mset (nargsort_desc L ?e) = mset [0..<length (select ?m (index df))]"
      by (simp only: lib_ok_perm [OF assms(1)])
    then show ?thesis
      unfolding 2 by (simp add: mset_take_pos)
  qed
qed

section \<open>The scenarios of the specification\<close>

lemma limite_civil_31_marzo:
  "limite_civil \<lparr> year = 2023, month = 3, day = 31, hour = 0, minute = 0, second = 0,
                   microsecond = 0 \<rparr>
     = \<lparr> year = 2023, month = 1, day = 31, hour = 0, minute = 0, second = 0,
         microsecond = 0 \<rparr>"
  by (simp add: limite_civil_def days_in_month_def)

lemma limite_civil_30_abril:
  "limite_civil \<lparr> year = 2023, month = 4, day = 30, hour = 0, minute = 0, second = 0,
                   microsecond = 0 \<rparr>
     = \<lparr> year = 2023, month = 2, day = 28, hour = 0, minute = 0, second = 0,
         microsecond = 0 \<rparr>"
  by (simp add: limite_civil_def days_in_month_def is_leap_def)

lemma limite_civil_31_enero:
  "limite_civil \<lparr> year = 2024, month = 1, day = 31, hour = 0, minute = 0, second = 0,
                   microsecond = 0 \<rparr>
     = \<lparr> year = 2023, month = 11, day = 30, hour = 0, minute = 0, second = 0,
         microsecond = 0 \<rparr>"
  by (simp add: limite_civil_def days_in_month_def)

lemma escenario_1:
  "procesar_datos pandas_estable reloj_abril df_escenario =
     (Inr \<lparr> lista_actuaciones = [Str ''Filed''],
            df_completo =
              \<lparr> index = [0], caso = Some (ObjCol [Str ''123'']),
                fecha = Some (Dates [Some 1673308800000000000]),
                actuacion = Some [Str ''Filed''], dias = None, otras = [] \<rparr>,
            df_clasificado_fecha =
              \<lparr> index = [0], caso = Some (ObjCol [Str ''123'']),
                fecha = Some (Dates [Some 1673308800000000000]),
                actuacion = Some [Str ''Filed''], dias = None, otras = [] \<rparr>,
            resultado_atrasados =
              \<lparr> index = [0], caso = Some (ObjCol [Str ''123'']),
                fecha = Some (Dates [Some 1673308800000000000]),
                actuacion = Some [Str ''Filed''], dias = Some [81], otras = [] \<rparr>,
            fecha_actual =
              \<lparr> year = 2023, month = 4, day = 1, hour = 0, minute = 0, second = 0,
                microsecond = 0 \<rparr>,
            fecha_limite =
              \<lparr> year = 2023, month = 2, day = 1, hour = 0, minute = 0, second = 0,
                microsecond = 0 \<rparr> \<rparr>,
      \<lparr> index = [0], caso = Some (ObjCol [Str ''123'']),
        fecha = Some (Dates [Some 1673308800000000000]),
        actuacion = Some [Str ''Filed''], dias = None, otras = [] \<rparr>)"
  by (simp add: eval_defs df_escenario_def reloj_abril_def)

section \<open>The sorted list of actions\<close>

lemma distinct_unique: "distinct (unique xs)"
  by (simp add: unique_def)

lemma set_unique: "set (unique xs) = set xs"
  by (simp add: unique_def)

lemma Str_texto: "is_Str c \<Longrightarrow> Str (texto c) = c"
  by (cases c) simp_all

lemma Num_entero: "\<not> is_Str c \<Longrightarrow> c \<noteq> NaN \<Longrightarrow> Num (entero c) = c"
  by (cases c) simp_all

lemma sorted_wrt_py_lt_Str: "sorted_wrt py_lt (map Str zs) = sorted_wrt (<) zs"
  by (induction zs) auto

lemma sorted_wrt_py_lt_Num: "sorted_wrt py_lt (map Num zs) = sorted_wrt (<) zs"
  by (induction zs) auto

lemma un_solo_run_Num: "un_solo_run (map Num zs) = sorted zs"
proof (induction zs)
  case Nil
  then show ?case by simp
next
  case (Cons z zs)
  then show ?case by (cases zs) (fastforce simp: not_less)+
qed

lemma numeros:
  assumes "\<not> list_ex is_Str xs" and "\<not> list_ex (\<lambda>c. c = NaN) xs"
  shows "map Num (map entero xs) = xs" and "inj_on entero (set xs)"
proof -
  have n: "Num (entero c) = c" if "c \<in> set xs" for c
    using that assms by (intro Num_entero) (auto simp: list_ex_iff)
  then show "map Num (map entero xs) = xs"
    by (simp add: map_idI)
  show "inj_on entero (set xs)"
    using n by (intro inj_onI) metis
qed

lemma list_sort_Inr:
  assumes "list_sort L xs = Inr ys" and "distinct xs"
  shows "distinct ys" and "set ys = set xs"
    and "list_all is_Str xs \<or> \<not> list_ex (\<lambda>c. c = NaN) xs \<Longrightarrow> sorted_wrt py_lt ys"
proof -
  let ?S = "list_ex is_Str xs"
  let ?N = "list_ex (\<lambda>c. c = NaN) xs"
  have nomix: "\<not> (?S \<and> list_ex (\<lambda>c. \<not> is_Str c) xs)"
    using assms(1) by (cases "?S \<and> list_ex (\<lambda>c. \<not> is_Str c) xs") (simp_all add: list_sort_def)
  have c1: "ys = map Str (sort (map texto xs))" if "?S"
    using assms(1) nomix that by (simp add: list_sort_def)
  have c2: "ys = xs" if "\<not> ?S" "un_solo_run xs"
    using assms(1) that by (simp add: list_sort_def)
  have c3: "ys = sort_key (orden_nan L xs) xs" if "\<not> ?S" "\<not> un_solo_run xs" "?N"
    using assms(1) that by (simp add: list_sort_def)
  have c4: "ys = map Num (sort (map entero xs))" if "\<not> ?S" "\<not> un_solo_run xs" "\<not> ?N"
    using assms(1) that by (simp add: list_sort_def)
  have all: "\<forall>c \<in> set xs. is_Str c" if "?S"
    using nomix that by (auto simp: list_ex_iff)
  consider (letras) "?S" "\<forall>c \<in> set xs. is_Str c" "ys = map Str (sort (map texto xs))"
    | (uno) "\<not> ?S" "un_solo_run xs" "ys = xs"
    | (hueco) "\<not> ?S" "\<not> un_solo_run xs" "?N" "ys = sort_key (orden_nan L xs) xs"
    | (nums) "\<not> ?S" "\<not> ?N" "ys = map Num (sort (map entero xs))"
    using c1 c2 c3 c4 all by blast
  then have "distinct ys \<and> set ys = set xs \<and>
      (list_all is_Str xs \<or> \<not> list_ex (\<lambda>c. c = NaN) xs \<longrightarrow> sorted_wrt py_lt ys)"
  proof cases
    case letras
    have inj: "inj_on texto (set xs)"
      using letras(2) by (intro inj_onI) (metis Str_texto)
    then have d: "distinct (map texto xs)"
      using assms(2) by (simp add: distinct_map)
    have "set ys = Str ` texto ` set xs"
      by (simp add: letras(3))
    also have "\<dots> = set xs"
      using letras(2) by (auto simp: Str_texto image_iff)
    finally have "set ys = set xs" .
    moreover have "distinct ys"
      using d by (simp add: letras(3) distinct_map inj_on_def)
    moreover have "sorted_wrt py_lt ys"
      using d by (simp add: letras(3) sorted_wrt_py_lt_Str strict_sorted_iff)
    ultimately show ?thesis by simp
  next
    case uno
    have "sorted_wrt py_lt xs" if "\<not> list_ex (\<lambda>c. c = NaN) xs"
    proof -
      note n = numeros [OF uno(1) that]
      have "un_solo_run (map Num (map entero xs))"
        using uno(2) by (simp only: n(1))
      then have "sorted (map entero xs)"
        by (simp only: un_solo_run_Num)
      moreover have "distinct (map entero xs)"
        using assms(2) n(2) by (simp add: distinct_map)
      ultimately have "sorted_wrt py_lt (map Num (map entero xs))"
        unfolding sorted_wrt_py_lt_Num by (simp add: strict_sorted_iff)
      then show ?thesis
        by (simp only: n(1))
    qed
    moreover have "xs = []" if "list_all is_Str xs"
      using that uno(1) by (cases xs) (auto simp: list_ex_iff)
    ultimately show ?thesis
      using assms(2) by (auto simp: uno(3))
  next
    case hueco
    from hueco(3) have "NaN \<in> set xs"
      by (simp add: list_ex_iff)
    then have "\<not> list_all is_Str xs"
      by (auto simp: list_all_iff intro!: bexI [of _ NaN])
    then show ?thesis
      using assms(2) hueco(3) by (simp add: hueco(4))
  next
    case nums
    note n = numeros [OF nums(1,2)]
    have d: "distinct (map entero xs)"
      using assms(2) n(2) by (simp add: distinct_map)
    have "set ys = set (map Num (map entero xs))"
      unfolding nums(3) by (simp only: set_map set_sort)
    then have "set ys = set xs"
      by (simp only: n(1))
    moreover have "distinct ys"
      using d by (simp add: nums(3) distinct_map inj_on_def)
    moreover have "sorted_wrt py_lt ys"
      using d by (simp add: nums(3) sorted_wrt_py_lt_Num strict_sorted_iff)
    ultimately show ?thesis by simp
  qed
  then show "distinct ys" and "set ys = set xs"
    and "list_all is_Str xs \<or> \<not> list_ex (\<lambda>c. c = NaN) xs \<Longrightarrow> sorted_wrt py_lt ys"
    by blast+
qed

lemma list_sort_text:
  assumes "list_all is_Str xs"
  shows "\<exists>ys. list_sort L xs = Inr ys"
  using assms by (auto simp: list_sort_def list_all_iff list_ex_iff)

text \<open>
  What holds of the list of actions in every successful run: it has no duplicates and
  holds exactly the values of the action column of the cleaned dataset; and it is in
  strictly ascending order when these are all text, or all numbers with no empty field.
\<close>

lemma lista_actuaciones_run:
  assumes "procesar_datos L now df = (Inr out, df')"
  shows "distinct (lista_actuaciones out)"
    and "set (lista_actuaciones out) = set (actuaciones_de (df_completo out))"
    and "list_all is_Str (actuaciones_de (df_completo out)) \<or>
         \<not> list_ex (\<lambda>c. c = NaN) (actuaciones_de (df_completo out))
         \<Longrightarrow> sorted_wrt py_lt (lista_actuaciones out)"
proof -
  note run = procesar_datos_Inr [OF assms]
  from cuerpo_Inr(8) [OF run] obtain acts where
    acts: "actuacion (limpio L df) = Some acts"
    and srt: "list_sort L (unique acts) = Inr (lista_actuaciones out)"
    by blast
  have a: "actuaciones_de (df_completo out) = acts"
    by (simp add: cuerpo_Inr(3) [OF run] actuaciones_de_def acts)
  note s = list_sort_Inr [OF srt distinct_unique]
  show "distinct (lista_actuaciones out)"
    by (rule s(1))
  show "set (lista_actuaciones out) = set (actuaciones_de (df_completo out))"
    using s(2) by (simp add: set_unique a)
  show "sorted_wrt py_lt (lista_actuaciones out)"
    if "list_all is_Str (actuaciones_de (df_completo out)) \<or>
        \<not> list_ex (\<lambda>c. c = NaN) (actuaciones_de (df_completo out))"
    using that by (intro s(3)) (simp add: a list_all_iff list_ex_iff set_unique)
qed

section \<open>C10: a dataset with every column and every date that still fails\<close>

text \<open>
  C10. There is a dataset with the three required columns and only parseable dates on
  which the processor fails with a ProcessingError: \<open>df_mixto\<close>, whose action column
  holds a label and a missing value. Whatever the library and the clock, as long as both
  dates parse, sorting the list of distinct labels raises \<^verbatim>\<open>TypeError\<close>, the catch-all
  handler takes it, and no view is returned.
\<close>

theorem mixed_labels_fail:
  assumes "to_datetime L (ObjCol [Str ''2023-01-10'', Str ''2023-03-20'']) = [Some t1, Some t2]"
  shows "caso df_mixto \<noteq> None \<and> fecha df_mixto \<noteq> None \<and> actuacion df_mixto \<noteq> None \<and>
         list_all notna (coercion L df_mixto) \<and>
         fst (procesar_datos L now df_mixto) = Inl (ProcessingError TypeError)"
  using assms
  by (simp add: df_mixto_def coercion_def notna_def procesar_datos_def cuerpo_def
        limpiar_caso_def select_rows_def unique_def list_sort_def)

theorem mixed_labels_fail_witness:
  "to_datetime pandas_estable (ObjCol [Str ''2023-01-10'', Str ''2023-03-20''])
     = [Some 1673308800000000000, Some 1679270400000000000] \<and>
   fst (procesar_datos pandas_estable reloj_abril df_mixto) = Inl (ProcessingError TypeError)"
proof -
  have h: "to_datetime pandas_estable (ObjCol [Str ''2023-01-10'', Str ''2023-03-20''])
     = [Some 1673308800000000000, Some 1679270400000000000]"
    by (simp add: eval_defs)
  show ?thesis using h mixed_labels_fail [OF h, of reloj_abril] by simp
qed

section \<open>C2: missing columns\<close>

text \<open>
  Where the processor does report a missing column. A dataset without the date column
  fails with a SchemaError that names the date column, and one with the date column and
  without the action column fails with a SchemaError that names the action column. A
  dataset without the case column fails with a SchemaError that names the case column once
  the run reaches line 56 with a stale row. The error carries no view.
\<close>

lemma missing_date_or_action_column:
  "(fecha df = None \<longrightarrow>
      procesar_datos L now df = (Inl (SchemaError COL_FECHA), limpiar_caso df)) \<and>
   (fecha df \<noteq> None \<and> actuacion df = None \<longrightarrow>
      fst (procesar_datos L now df) = Inl (SchemaError COL_ACTUACION))"
  by (auto simp: procesar_datos_def cuerpo_def select_rows_def Let_def split: option.splits)

lemma calcular_atrasados_sin_caso:
  assumes "caso df = None" and "select (map (\<lambda>t. floor_D t < valor limite) fs) (index df) \<noteq> []"
  shows "calcular_atrasados L actual limite fs df = Inl (KeyError COL_CASO)"
  using assms by (simp add: calcular_atrasados_def Let_def select_rows_def)

lemma missing_case_column_with_stale_row:
  assumes "caso df = None" and "fecha df \<noteq> None"
    and "actuacion (limpio L df) = Some acts" and "list_sort L (unique acts) = Inr lista"
    and "restar_meses 2 (medianoche now) = Inr limite"
    and "select (map (\<lambda>t. floor_D t < valor limite) (validas (coercion L df)))
           (index (limpio L df)) \<noteq> []"
  shows "fst (procesar_datos L now df) = Inl (SchemaError COL_CASO)"
proof -
  from assms(2) obtain fc where fc: "fecha df = Some fc" by auto
  have "caso (limpio L df) = None"
    using assms(1) by (simp add: caso_limpio limpiar_caso_def)
  from calcular_atrasados_sin_caso [OF this assms(6)]
  have "calcular_atrasados L (medianoche now) limite (validas (coercion L df)) (limpio L df)
          = Inl (KeyError COL_CASO)" .
  then have "cuerpo L now df = (Inl (KeyError COL_CASO), limpio L df)"
    using assms(3,4,5) by (simp add: cuerpo_def Let_def fc limpio_def coercion_def)
  then show ?thesis
    by (simp add: procesar_datos_def)
qed

lemma missing_case_column_stale_row_example:
  "fst (procesar_datos pandas_estable reloj_julio df_sin_caso) = Inl (SchemaError COL_CASO)"
  by (simp add: eval_defs df_sin_caso_def reloj_julio_def)

text \<open>
  C2. The claim is what the program announces: the error text of line 68 asks for the
  three columns, the case column among them, and the shell reads the case column of the
  classified view at line 129. The code misses one case. The guard of line 24 skips the
  cleaning of an absent case column without raising, and the column is looked up again
  only at line 56, when there are stale rows. On \<open>df_sin_caso\<close>, a dataset without the
  case column whose only row is recent, the processor returns its six values and no
  SchemaError.
\<close>

theorem missing_case_column_returns_views:
  "caso df_sin_caso = None \<and>
   fst (procesar_datos pandas_estable reloj_abril df_sin_caso) =
     Inr \<lparr> lista_actuaciones = [Str ''Filed''],
           df_completo =
             \<lparr> index = [0], caso = None, fecha = Some (Dates [Some 1679270400000000000]),
               actuacion = Some [Str ''Filed''], dias = None, otras = [] \<rparr>,
           df_clasificado_fecha =
             \<lparr> index = [0], caso = None, fecha = Some (Dates [Some 1679270400000000000]),
               actuacion = Some [Str ''Filed''], dias = None, otras = [] \<rparr>,
           resultado_atrasados = DataFrame_vacio,
           fecha_actual =
             \<lparr> year = 2023, month = 4, day = 1, hour = 0, minute = 0, second = 0,
               microsecond = 0 \<rparr>,
           fecha_limite =
             \<lparr> year = 2023, month = 2, day = 1, hour = 0, minute = 0, second = 0,
               microsecond = 0 \<rparr> \<rparr>"
  by (simp add: eval_defs df_sin_caso_def reloj_abril_def)

section \<open>The clock reading\<close>

text \<open>
  \<open>now\<close> stands for the value that \<^verbatim>\<open>datetime.now()\<close> returns at line 43, inside the
  function. What the function returns depends on it, and only through its calendar day.
\<close>

lemma clock_reading_matters:
  "fst (procesar_datos pandas_estable reloj_enero df_escenario) \<noteq>
   fst (procesar_datos pandas_estable reloj_abril df_escenario)"
  by (simp add: eval_defs df_escenario_def reloj_enero_def reloj_abril_def)

lemma same_day_same_outputs:
  assumes "year n1 = year n2" and "month n1 = month n2" and "day n1 = day n2"
  shows "procesar_datos L n1 df = procesar_datos L n2 df"
proof -
  have eq: "medianoche n1 = medianoche n2"
    using assms by (cases n1, cases n2) (simp add: medianoche_def)
  show ?thesis
    unfolding procesar_datos_def cuerpo_def eq by (rule refl)
qed

section \<open>C6: the caller's dataset\<close>

text \<open>
  C6 as stated fails: \<^verbatim>\<open>procesar_datos\<close> works on the object it is given, not on a copy.
  After a call with a reference to the scenario's DataFrame, the object behind that
  reference has lost its quotes, holds timestamps and has one row less.
\<close>

theorem argument_is_mutated_counterexample:
  "heap almacen 0 = Some df_escenario \<and>
   objeto_tras 0 (procesar_datos_ref pandas_estable reloj_abril 0 almacen) =
     Some \<lparr> index = [0], caso = Some (ObjCol [Str ''123'']),
            fecha = Some (Dates [Some 1673308800000000000]),
            actuacion = Some [Str ''Filed''], dias = None, otras = [] \<rparr>"
  by (simp add: eval_defs objeto_tras_def procesar_datos_ref_def almacen_def df_escenario_def
        reloj_abril_def)

text \<open>
  C6, amended. The copy is made by the caller: the shell calls
  \<^verbatim>\<open>procesar_datos(df_original.copy())\<close>, so the processor changes a new object, and
  every object that existed before the call, \<^verbatim>\<open>df_original\<close> among them, is unchanged
  when the shell's call returns.
\<close>

theorem shell_keeps_df_original:
  assumes "shell L now df_original s = Some (r, s')" and "a < siguiente s"
  shows "heap s' a = heap s a"
  using assms
  by (auto simp: shell_def copy_def procesar_datos_ref_def
           split: option.splits prod.splits)

theorem shell_keeps_df_original_witness:
  "(0::nat) < siguiente almacen \<and>
   objeto_tras 0 (shell pandas_estable reloj_abril 0 almacen) = Some df_escenario"
proof -
  obtain r d where p: "procesar_datos pandas_estable reloj_abril df_escenario = (r, d)"
    by (cases "procesar_datos pandas_estable reloj_abril df_escenario")
  define s' where "s' = \<lparr> heap = (heap almacen)(1 := Some df_escenario, 1 := Some d),
                           siguiente = 2 \<rparr>"
  have h: "shell pandas_estable reloj_abril 0 almacen = Some (r, s')"
    by (simp add: shell_def copy_def procesar_datos_ref_def almacen_def p s'_def)
  have a: "(0::nat) < siguiente almacen" by (simp add: almacen_def)
  have "heap s' 0 = heap almacen 0"
    using shell_keeps_df_original [OF h a] .
  then have "objeto_tras 0 (shell pandas_estable reloj_abril 0 almacen) = heap almacen 0"
    unfolding objeto_tras_def h by simp
  then show ?thesis
    using a by (simp add: almacen_def)
qed

section \<open>C8: the list of actions\<close>

text \<open>
  C8. The claim is what the program sets out to do: line 34 takes the distinct values and
  line 35 sorts them (its comment: to put them in alphabetical order). The list has no
  duplicates and holds exactly the values of the cleaned dataset in every successful run,
  and it is in ascending order when these are all text or all numbers
  (\<open>lista_actuaciones_run\<close>). The code misses the case of an empty field in a column
  of numeric codes. On \<open>df_codigos\<close>, whose action column is \<^verbatim>\<open>[2.0, nan, 1.0]\<close> and whose
  dates all parse, \<^verbatim>\<open>list.sort()\<close> raises nothing and moves nothing, because every
  comparison with \<^verbatim>\<open>nan\<close> is false: the processor returns the list \<^verbatim>\<open>[2.0, nan, 1.0]\<close>,
  with 2 before 1.
\<close>

theorem numeric_labels_with_gap_left_unsorted:
  "actuaciones_de (vista df_completo (procesar_datos pandas_estable reloj_abril df_codigos))
     = [Num 2, NaN, Num 1] \<and>
   lista_de (procesar_datos pandas_estable reloj_abril df_codigos) = Some [Num 2, NaN, Num 1] \<and>
   \<not> sorted_wrt py_lt [Num 2, NaN, Num 1] \<and>
   py_lt (Num 1) (Num 2)"
  by (simp add: eval_defs vista_def lista_de_def actuaciones_de_def df_codigos_def
        reloj_abril_def)

section \<open>C9: quotes in the case identifier\<close>

lemma sin_comilla_quitar: "sin_comilla (Str (quitar_comillas s))"
  by (simp add: quitar_comillas_def)

lemma col_sin_comillas_limpiar:
  "caso (limpiar_caso df) = Some c \<Longrightarrow> col_sin_comillas c"
  by (auto simp: limpiar_caso_def list_all_iff quitar_comillas_def
           split: option.splits column.splits)

lemma col_sin_comillas_select: "col_sin_comillas c \<Longrightarrow> col_sin_comillas (select_col m c)"
  by (cases c) (auto simp: list_all_iff dest: subsetD [OF set_select])

lemma col_sin_comillas_take:
  assumes "col_sin_comillas c" and "mset ps = mset [0..<col_len c]"
  shows "col_sin_comillas (take_col ps c)"
proof (cases c)
  case (ObjCol xs)
  then have "set (take_pos ps xs) = set xs"
    using assms(2) by (simp add: set_take_pos)
  then show ?thesis
    using assms(1) by (simp add: ObjCol list_all_iff)
next
  case (IntCol xs)
  then show ?thesis by simp
qed

text \<open>
  C9. In every successful run, no case identifier of the cleaned dataset, of the
  classified view or of the stale view holds the quote character; and the identifiers
  of a text column are those of the input with the quotes taken out, nothing else changed
  (a missing identifier reads \<^verbatim>\<open>nan\<close>).
\<close>

theorem case_ids_without_quotes:
  assumes "lib_ok L" and "wf_frame df" and "procesar_datos L now df = (Inr out, df')"
  shows "vista_sin_comillas (df_completo out) \<and>
         vista_sin_comillas (df_clasificado_fecha out) \<and>
         vista_sin_comillas (resultado_atrasados out) \<and>
         (\<forall>xs. caso df = Some (ObjCol xs) \<longrightarrow>
            caso (df_completo out) =
              Some (ObjCol (select (map notna (coercion L df))
                      (map (\<lambda>c. Str (filter (\<lambda>ch. ch \<noteq> CHR 0x27) (astype_str c))) xs))))"
proof -
  note run = procesar_datos_Inr [OF assms(3)]
  let ?C = "limpio L df"
  let ?fs = "validas (coercion L df)"
  have fe: "fecha df \<noteq> None" by (rule cuerpo_Inr(1) [OF run])
  have wfC: "wf_frame ?C" by (rule wf_limpio [OF assms(1,2) fe])
  have lenfs: "length ?fs = length (index ?C)"
    by (rule length_validas_limpio [OF assms(1,2) fe])
  have C: "col_sin_comillas c" if "caso ?C = Some c" for c
    using that by (auto simp: caso_limpio intro: col_sin_comillas_select col_sin_comillas_limpiar)
  have lenC: "col_len c = length ?fs" if "caso ?C = Some c" for c
    using that wfC lenfs by (simp add: wf_frame_iff)
  have v1: "vista_sin_comillas (df_completo out)"
    by (auto simp: cuerpo_Inr(3) [OF run] vista_sin_comillas_def C split: option.splits)
  have "col_sin_comillas (take_col (nargsort_desc L ?fs) c)" if c: "caso ?C = Some c" for c
    by (rule col_sin_comillas_take [OF C [OF c]])
       (simp only: lenC [OF c] lib_ok_perm [OF assms(1)])
  then have v2: "vista_sin_comillas (df_clasificado_fecha out)"
    unfolding cuerpo_Inr(4) [OF run] vista_sin_comillas_def
    by (auto split: option.splits)
  have v3: "vista_sin_comillas (resultado_atrasados out)"
  proof -
    let ?m = "map (\<lambda>t. floor_D t < valor (fecha_limite out)) ?fs"
    let ?e = "map (\<lambda>t. dt_days (valor (medianoche now) - t)) (select ?m ?fs)"
    from calcular_atrasados_Inr [OF cuerpo_Inr(7) [OF run]]
    consider "resultado_atrasados out = DataFrame_vacio"
      | "resultado_atrasados out =
           take_rows (nargsort_desc L ?e) ((select_rows ?m ?C)\<lparr>dias := Some ?e, otras := []\<rparr>)"
      by blast
    then show ?thesis
    proof cases
      case 1
      then show ?thesis by (simp add: vista_sin_comillas_def DataFrame_vacio_def)
    next
      case 2
      have "col_sin_comillas (take_col (nargsort_desc L ?e) (select_col ?m c))"
        if c: "caso ?C = Some c" for c
      proof (rule col_sin_comillas_take)
        show "col_sin_comillas (select_col ?m c)"
          by (rule col_sin_comillas_select [OF C [OF c]])
        have "col_len (select_col ?m c) = length ?e"
          by (simp add: col_len_select_col length_select lenC [OF c])
        then show "mset (nargsort_desc L ?e) = mset [0..<col_len (select_col ?m c)]"
          by (simp only: lib_ok_perm [OF assms(1)])
      qed
      then show ?thesis
        unfolding 2 vista_sin_comillas_def by (auto split: option.splits)
    qed
  qed
  have v4: "caso (df_completo out) =
              Some (ObjCol (select (map notna (coercion L df))
                      (map (\<lambda>c. Str (filter (\<lambda>ch. ch \<noteq> CHR 0x27) (astype_str c))) xs)))"
    if "caso df = Some (ObjCol xs)" for xs
    using that
    by (simp add: cuerpo_Inr(3) [OF run] caso_limpio limpiar_caso_def quitar_comillas_def)
  from v1 v2 v3 v4 show ?thesis by blast
qed

theorem case_ids_without_quotes_witness:
  "lib_ok pandas_estable \<and> wf_frame df_ejemplo \<and>
   procesar_datos pandas_estable reloj_abril df_ejemplo = (Inr salida_ejemplo, limpio_ejemplo) \<and>
   caso df_ejemplo =
     Some (ObjCol [Str (CHR 0x27 # ''A1'' @ [CHR 0x27]), Str ''B2'',
                   Str (''C'' @ [CHR 0x27] @ ''3''), Str ''D4'']) \<and>
   caso (df_completo salida_ejemplo) = Some (ObjCol [Str ''A1'', Str ''C3'', Str ''D4'']) \<and>
   vista_sin_comillas (df_completo salida_ejemplo) \<and>
   vista_sin_comillas (df_clasificado_fecha salida_ejemplo) \<and>
   vista_sin_comillas (resultado_atrasados salida_ejemplo)"
proof -
  have c1: "caso df_ejemplo =
     Some (ObjCol [Str (CHR 0x27 # ''A1'' @ [CHR 0x27]), Str ''B2'',
                   Str (''C'' @ [CHR 0x27] @ ''3''), Str ''D4''])"
    by (simp add: df_ejemplo_def)
  have c2: "caso (df_completo salida_ejemplo) = Some (ObjCol [Str ''A1'', Str ''C3'', Str ''D4''])"
    by (simp add: salida_ejemplo_def limpio_ejemplo_def)
  show ?thesis
    using case_ids_without_quotes [OF lib_ok_estable wf_ejemplo ejemplo_abril]
          lib_ok_estable wf_ejemplo ejemplo_abril c1 c2
    by blast
qed

section \<open>C1: which rows are stale\<close>

text \<open>
  C1. In every successful run, whatever the dataset and the clock reading, the cutoff is
  the reading truncated to midnight moved back two calendar months in the civil calendar
  (\<open>limite_civil\<close>: the month count goes down by two, the day of the month is cut to
  the length of the month reached), and a row of the cleaned dataset is in the stale view
  if and only if its date, floored to the day, is strictly before the cutoff. Rows are
  identified by their labels, which pandas keeps distinct for a file it has read.
\<close>

theorem stale_iff_before_cutoff:
  assumes "lib_ok L" and "wf_frame df" and "distinct (index df)" and "fecha_valida now"
    and "procesar_datos L now df = (Inr out, df')"
  shows "fecha_actual out = medianoche now \<and>
         fecha_limite out = limite_civil (medianoche now) \<and>
         (\<forall>k < length (index (df_completo out)).
            index (df_completo out) ! k \<in> set (index (resultado_atrasados out)) \<longleftrightarrow>
            (\<exists>t. fechas_de (df_completo out) ! k = Some t \<and>
                 floor_D t < valor (fecha_limite out)))"
proof -
  note run = procesar_datos_Inr [OF assms(5)]
  let ?C = "limpio L df"
  let ?fs = "validas (coercion L df)"
  let ?m = "map (\<lambda>t. floor_D t < valor (fecha_limite out)) ?fs"
  have fe: "fecha df \<noteq> None" by (rule cuerpo_Inr(1) [OF run])
  have len: "length ?fs = length (index ?C)"
    by (rule length_validas_limpio [OF assms(1,2) fe])
  have mes: "1 \<le> month (medianoche now)" "month (medianoche now) \<le> 12"
    using assms(4) by (simp_all add: fecha_valida_def medianoche_def)
  have lim: "fecha_limite out = limite_civil (medianoche now)"
    by (rule restar_meses_civil [OF mes cuerpo_Inr(6) [OF run]])
  have dist: "distinct (index ?C)"
    unfolding index_limpio by (rule distinct_select [OF assms(3)])
  have "mset (index (resultado_atrasados out)) = mset (select ?m (index ?C))"
    by (rule index_atrasados [OF assms(1) len cuerpo_Inr(7) [OF run]])
  then have set_R: "set (index (resultado_atrasados out)) = set (select ?m (index ?C))"
    by (rule mset_eq_setD)
  have "index ?C ! k \<in> set (index (resultado_atrasados out)) \<longleftrightarrow>
          (\<exists>t. fechas_de ?C ! k = Some t \<and> floor_D t < valor (fecha_limite out))"
    if k: "k < length (index ?C)" for k
  proof -
    have "index ?C ! k \<in> set (select ?m (index ?C)) \<longleftrightarrow> ?m ! k"
      by (rule nth_mem_select [OF dist _ k]) (simp add: len)
    then show ?thesis
      using k by (simp add: set_R fechas_de_limpio len)
  qed
  then show ?thesis
    by (simp add: cuerpo_Inr(3,5) [OF run] lim)
qed

lemma reloj_abril_valido: "fecha_valida reloj_abril"
  by (simp add: fecha_valida_def reloj_abril_def days_in_month_def)

theorem stale_iff_before_cutoff_witness:
  "lib_ok pandas_estable \<and> wf_frame df_ejemplo \<and> distinct (index df_ejemplo) \<and>
   fecha_valida reloj_abril \<and>
   procesar_datos pandas_estable reloj_abril df_ejemplo = (Inr salida_ejemplo, limpio_ejemplo) \<and>
   index (df_completo salida_ejemplo) = [0, 2, 3] \<and>
   index (resultado_atrasados salida_ejemplo) = [3, 0] \<and>
   fecha_actual salida_ejemplo = medianoche reloj_abril \<and>
   fecha_limite salida_ejemplo = limite_civil (medianoche reloj_abril) \<and>
   (index (df_completo salida_ejemplo) ! 1 \<in> set (index (resultado_atrasados salida_ejemplo)))
     = (\<exists>t. fechas_de (df_completo salida_ejemplo) ! 1 = Some t \<and>
            floor_D t < valor (fecha_limite salida_ejemplo))"
proof -
  have d: "distinct (index df_ejemplo)"
    by (simp add: df_ejemplo_def)
  have i: "index (df_completo salida_ejemplo) = [0, 2, 3]"
    "index (resultado_atrasados salida_ejemplo) = [3, 0]"
    by (simp_all add: salida_ejemplo_def limpio_ejemplo_def)
  have k: "1 < length (index (df_completo salida_ejemplo))"
    by (simp add: i)
  note t = stale_iff_before_cutoff
    [OF lib_ok_estable wf_ejemplo d reloj_abril_valido ejemplo_abril]
  from t have t1: "fecha_actual salida_ejemplo = medianoche reloj_abril"
    and t2: "fecha_limite salida_ejemplo = limite_civil (medianoche reloj_abril)"
    by simp_all
  from t k have t3:
    "(index (df_completo salida_ejemplo) ! 1 \<in> set (index (resultado_atrasados salida_ejemplo)))
     = (\<exists>t. fechas_de (df_completo salida_ejemplo) ! 1 = Some t \<and>
            floor_D t < valor (fecha_limite salida_ejemplo))"
    by blast
  show ?thesis
    by (intro conjI)
       (rule lib_ok_estable wf_ejemplo d reloj_abril_valido ejemplo_abril i t1 t2 t3)+
qed

section \<open>C5: the age in days\<close>

lemma select_nth_aligned:
  assumes "length m = length xs" and "length ys = length xs" and "p < length (select m xs)"
  shows "\<exists>k < length xs. m ! k \<and> select m xs ! p = xs ! k \<and> select m ys ! p = ys ! k"
proof -
  let ?P = "filter (\<lambda>p. m ! p) [0..<length xs]"
  have xs: "select m xs = map (\<lambda>p. xs ! p) ?P"
    by (rule select_positions [OF assms(1)])
  have ys: "select m ys = map (\<lambda>p. ys ! p) ?P"
    using select_positions [of m ys] assms(1,2) by simp
  have p: "p < length ?P"
    using assms(3) by (simp add: xs)
  then have "?P ! p \<in> set ?P"
    by (rule nth_mem)
  then have "?P ! p < length xs" "m ! (?P ! p)"
    by auto
  then show ?thesis
    using p by (auto simp: xs ys intro!: exI [of _ "?P ! p"])
qed

lemma stale_before_now:
  assumes "fecha_valida now" and "restar_meses 2 (medianoche now) = Inr limite"
    and "floor_D t < valor limite"
  shows "0 \<le> dt_days (valor (medianoche now) - t)"
proof -
  have mes: "1 \<le> month now" "month now \<le> 12"
    using assms(1) by (simp_all add: fecha_valida_def)
  have "t < valor limite"
    using assms(3) unfolding valor_limite [OF assms(2)] by (rule before_floor)
  also have "valor limite \<le> valor (medianoche now)"
    by (rule valor_limite_le [OF mes assms(2)])
  finally show ?thesis
    by (intro dt_days_nonneg) simp
qed

text \<open>
  C5. In every successful run, each row of the stale view carries its date as it stands in
  the cleaned dataset, not floored, and its age is the whole number of days (\<open>dt_days\<close>,
  the floor of the difference divided by a day) from that date to the clock reading
  truncated to midnight; the age is not negative.
\<close>

theorem age_days_of_stale_rows:
  assumes "lib_ok L" and "wf_frame df" and "fecha_valida now"
    and "procesar_datos L now df = (Inr out, df')"
  shows "\<forall>j < length (index (resultado_atrasados out)).
           \<exists>t. fechas_de (resultado_atrasados out) ! j = Some t \<and>
               dias_de (resultado_atrasados out) ! j = dt_days (valor (medianoche now) - t) \<and>
               0 \<le> dias_de (resultado_atrasados out) ! j \<and>
               (\<exists>k < length (index (df_completo out)).
                  index (df_completo out) ! k = index (resultado_atrasados out) ! j \<and>
                  fechas_de (df_completo out) ! k = Some t)"
proof (intro allI impI)
  fix j
  assume j: "j < length (index (resultado_atrasados out))"
  note run = procesar_datos_Inr [OF assms(4)]
  let ?C = "limpio L df"
  let ?fs = "validas (coercion L df)"
  let ?m = "map (\<lambda>t. floor_D t < valor (fecha_limite out)) ?fs"
  let ?e = "map (\<lambda>t. dt_days (valor (medianoche now) - t)) (select ?m ?fs)"
  let ?ps = "nargsort_desc L ?e"
  have fe: "fecha df \<noteq> None" by (rule cuerpo_Inr(1) [OF run])
  have len: "length ?fs = length (index ?C)"
    by (rule length_validas_limpio [OF assms(1,2) fe])
  from calcular_atrasados_Inr [OF cuerpo_Inr(7) [OF run]]
  consider "resultado_atrasados out = DataFrame_vacio"
    | "resultado_atrasados out =
         take_rows ?ps ((select_rows ?m ?C)\<lparr>dias := Some ?e, otras := []\<rparr>)"
    by blast
  then show "\<exists>t. fechas_de (resultado_atrasados out) ! j = Some t \<and>
               dias_de (resultado_atrasados out) ! j = dt_days (valor (medianoche now) - t) \<and>
               0 \<le> dias_de (resultado_atrasados out) ! j \<and>
               (\<exists>k < length (index (df_completo out)).
                  index (df_completo out) ! k = index (resultado_atrasados out) ! j \<and>
                  fechas_de (df_completo out) ! k = Some t)"
  proof cases
    case 1
    with j show ?thesis by (simp add: DataFrame_vacio_def)
  next
    case 2
    have perm: "mset ?ps = mset [0..<length ?e]"
      by (rule lib_ok_perm [OF assms(1)])
    have jps: "j < length ?ps"
      using j by (simp add: 2)
    then have "?ps ! j \<in> set ?ps" by (rule nth_mem)
    then have p: "?ps ! j < length (select ?m ?fs)"
      using perm_positions(2) [OF perm] by simp
    have R_idx: "index (resultado_atrasados out) ! j = select ?m (index ?C) ! (?ps ! j)"
      using jps by (simp add: 2 take_pos_def)
    have R_fec: "fechas_de (resultado_atrasados out) ! j = Some (select ?m ?fs ! (?ps ! j))"
      using jps p by (simp add: 2 fechas_de_def fecha_limpio take_pos_def select_map)
    have R_dia: "dias_de (resultado_atrasados out) ! j =
                   dt_days (valor (medianoche now) - select ?m ?fs ! (?ps ! j))"
      using jps p by (simp add: 2 dias_de_def take_pos_def)
    have lm: "length ?m = length ?fs" by simp
    have li: "length (index ?C) = length ?fs" using len by simp
    from select_nth_aligned [OF lm li p]
    obtain k where k: "k < length ?fs" "?m ! k"
      and kf: "select ?m ?fs ! (?ps ! j) = ?fs ! k"
      and ki: "select ?m (index ?C) ! (?ps ! j) = index ?C ! k"
      by blast
    have "floor_D (?fs ! k) < valor (fecha_limite out)"
      using k by simp
    then have nonneg: "0 \<le> dt_days (valor (medianoche now) - ?fs ! k)"
      by (rule stale_before_now [OF assms(3) cuerpo_Inr(6) [OF run]])
    have a1: "fechas_de (resultado_atrasados out) ! j = Some (?fs ! k)"
      using R_fec by (simp only: kf)
    have a2: "dias_de (resultado_atrasados out) ! j = dt_days (valor (medianoche now) - ?fs ! k)"
      using R_dia by (simp only: kf)
    have a3: "0 \<le> dias_de (resultado_atrasados out) ! j"
      unfolding a2 by (rule nonneg)
    have kC: "k < length (index (df_completo out))"
      using k(1) len by (simp add: cuerpo_Inr(3) [OF run])
    have f1: "fechas_de (df_completo out) ! k = Some (?fs ! k)"
      using k(1) by (simp add: cuerpo_Inr(3) [OF run] fechas_de_limpio)
    have i1: "index (df_completo out) ! k = index (resultado_atrasados out) ! j"
      by (simp add: R_idx ki cuerpo_Inr(3) [OF run])
    show ?thesis
      using a1 a2 a3 kC f1 i1 by blast
  qed
qed

theorem age_days_of_stale_rows_witness:
  "lib_ok pandas_estable \<and> wf_frame df_ejemplo \<and> fecha_valida reloj_abril \<and>
   procesar_datos pandas_estable reloj_abril df_ejemplo = (Inr salida_ejemplo, limpio_ejemplo) \<and>
   index (resultado_atrasados salida_ejemplo) = [3, 0] \<and>
   dias_de (resultado_atrasados salida_ejemplo) = [117, 81] \<and>
   fechas_de (resultado_atrasados salida_ejemplo) ! 0 = Some 1670198400000000000 \<and>
   dias_de (resultado_atrasados salida_ejemplo) ! 0
     = dt_days (valor (medianoche reloj_abril) - 1670198400000000000) \<and>
   0 \<le> dias_de (resultado_atrasados salida_ejemplo) ! 0"
proof -
  have i: "index (resultado_atrasados salida_ejemplo) = [3, 0]"
    "dias_de (resultado_atrasados salida_ejemplo) = [117, 81]"
    "fechas_de (resultado_atrasados salida_ejemplo) ! 0 = Some 1670198400000000000"
    by (simp_all add: salida_ejemplo_def dias_de_def fechas_de_def)
  have j: "0 < length (index (resultado_atrasados salida_ejemplo))"
    by (simp add: i)
  note t = age_days_of_stale_rows
    [OF lib_ok_estable wf_ejemplo reloj_abril_valido ejemplo_abril, rule_format, OF j]
  from t i(3) have t1: "dias_de (resultado_atrasados salida_ejemplo) ! 0
     = dt_days (valor (medianoche reloj_abril) - 1670198400000000000)"
    and t2: "0 \<le> dias_de (resultado_atrasados salida_ejemplo) ! 0"
    by auto
  show ?thesis
    by (intro conjI)
       (rule lib_ok_estable wf_ejemplo reloj_abril_valido ejemplo_abril i t1 t2)+
qed

section \<open>C7: rows whose date does not parse\<close>

lemma index_clasificado:
  assumes "lib_ok L" and "length fs = length (index df)"
  shows "mset (index (take_rows (nargsort_desc L fs) df)) = mset (index df)"
  using lib_ok_perm [OF assms(1), of fs] by (simp add: mset_take_pos assms(2))

lemma restar_meses_ok:
  assumes "1 < year t"
  shows "\<exists>l. restar_meses 2 t = Inr l"
  using assms by (simp add: restar_meses_def Let_def)

lemma calcular_atrasados_ok:
  assumes "caso df \<noteq> None"
  shows "\<exists>R. calcular_atrasados L actual limite fs df = Inr R"
  using assms by (auto simp: calcular_atrasados_def Let_def)

lemma procesar_datos_ok:
  assumes "caso df \<noteq> None" and "fecha df \<noteq> None" and "actuacion df \<noteq> None"
    and "list_all is_Str (select (map notna (coercion L df)) (actuaciones_de df))"
    and "1 < year now"
  shows "\<exists>out d. procesar_datos L now df = (Inr out, d)"
proof -
  let ?C = "limpio L df"
  let ?fs = "validas (coercion L df)"
  from assms(2) obtain fc where fc: "fecha df = Some fc" by auto
  from assms(3) obtain acts where acts: "actuacion df = Some acts" by auto
  have aC: "actuacion ?C = Some (select (map notna (coercion L df)) acts)"
    by (simp add: actuacion_limpio acts)
  have "list_all is_Str (unique (select (map notna (coercion L df)) acts))"
    using assms(4) by (simp add: list_all_iff set_unique actuaciones_de_def acts)
  from list_sort_text [OF this] obtain lista where
    lista: "list_sort L (unique (select (map notna (coercion L df)) acts)) = Inr lista" ..
  have y: "1 < year (medianoche now)"
    using assms(5) by (simp add: medianoche_def)
  from restar_meses_ok [OF y] obtain limite where
    limite: "restar_meses 2 (medianoche now) = Inr limite" ..
  have "caso ?C \<noteq> None"
    using assms(1) by (auto simp: caso_limpio limpiar_caso_def split: option.splits column.splits)
  from calcular_atrasados_ok [OF this] obtain R where
    R: "calcular_atrasados L (medianoche now) limite ?fs ?C = Inr R" ..
  have "cuerpo L now df =
          (Inr \<lparr> lista_actuaciones = lista, df_completo = ?C,
                 df_clasificado_fecha = take_rows (nargsort_desc L ?fs) ?C,
                 resultado_atrasados = R, fecha_actual = medianoche now,
                 fecha_limite = limite \<rparr>, ?C)"
    using aC lista limite R
    by (simp add: cuerpo_def Let_def fc limpio_def coercion_def)
  then show ?thesis
    by (simp add: procesar_datos_def)
qed

text \<open>
  C7. Take a row whose date is \<^verbatim>\<open>NaT\<close> after line 28. In every successful run the row is
  in none of the views, and the list of actions holds the labels of the rows that parse
  only. And the row causes no failure: a dataset with the three columns, text labels on
  the rows that parse and a clock after year 1 is processed to the end, however many of its
  dates do not parse.
\<close>

theorem unparseable_rows_dropped:
  assumes "lib_ok L" and "wf_frame df" and "distinct (index df)"
    and "k < length (index df)" and "coercion L df ! k = None"
  shows "(procesar_datos L now df = (Inr out, df') \<longrightarrow>
            index df ! k \<notin> set (index (df_completo out)) \<and>
            index df ! k \<notin> set (index (df_clasificado_fecha out)) \<and>
            index df ! k \<notin> set (index (resultado_atrasados out)) \<and>
            set (lista_actuaciones out) =
              set (select (map notna (coercion L df)) (actuaciones_de df))) \<and>
         (caso df \<noteq> None \<and> fecha df \<noteq> None \<and> actuacion df \<noteq> None \<and>
          list_all is_Str (select (map notna (coercion L df)) (actuaciones_de df)) \<and>
          1 < year now \<longrightarrow>
            (\<exists>s d. procesar_datos L now df = (Inr s, d)))"
proof (intro conjI impI)
  assume "caso df \<noteq> None \<and> fecha df \<noteq> None \<and> actuacion df \<noteq> None \<and>
          list_all is_Str (select (map notna (coercion L df)) (actuaciones_de df)) \<and>
          1 < year now"
  then show "\<exists>s d. procesar_datos L now df = (Inr s, d)"
    using procesar_datos_ok by blast
next
  assume ok: "procesar_datos L now df = (Inr out, df')"
  note run = procesar_datos_Inr [OF ok]
  let ?C = "limpio L df"
  let ?fs = "validas (coercion L df)"
  have fe: "fecha df \<noteq> None" by (rule cuerpo_Inr(1) [OF run])
  have len: "length ?fs = length (index ?C)"
    by (rule length_validas_limpio [OF assms(1,2) fe])
  have lc: "length (map notna (coercion L df)) = length (index df)"
    by (simp add: length_coercion [OF assms(1,2) fe])
  have "index df ! k \<in> set (index ?C) \<longleftrightarrow> map notna (coercion L df) ! k"
    unfolding index_limpio by (rule nth_mem_select [OF assms(3) lc assms(4)])
  also have "\<dots> \<longleftrightarrow> False"
    using assms(4,5) lc by (simp add: notna_def)
  finally have C: "index df ! k \<notin> set (index ?C)" by simp
  then show "index df ! k \<notin> set (index (df_completo out))"
    by (simp add: cuerpo_Inr(3) [OF run])
  have "set (index (df_clasificado_fecha out)) = set (index ?C)"
    unfolding cuerpo_Inr(4) [OF run]
    by (rule mset_eq_setD) (rule index_clasificado [OF assms(1) len])
  with C show "index df ! k \<notin> set (index (df_clasificado_fecha out))"
    by simp
  have "set (index (resultado_atrasados out)) =
          set (select (map (\<lambda>t. floor_D t < valor (fecha_limite out)) ?fs) (index ?C))"
    by (rule mset_eq_setD) (rule index_atrasados [OF assms(1) len cuerpo_Inr(7) [OF run]])
  with C show "index df ! k \<notin> set (index (resultado_atrasados out))"
    using set_select by fastforce
  from cuerpo_Inr(8) [OF run] obtain acts where
    acts: "actuacion ?C = Some acts"
    and srt: "list_sort L (unique acts) = Inr (lista_actuaciones out)"
    by blast
  have "acts = select (map notna (coercion L df)) (actuaciones_de df)"
    using acts by (auto simp: actuacion_limpio actuaciones_de_def)
  then show "set (lista_actuaciones out) =
               set (select (map notna (coercion L df)) (actuaciones_de df))"
    using list_sort_Inr(2) [OF srt distinct_unique] by (simp add: set_unique)
qed

theorem unparseable_rows_dropped_witness:
  "lib_ok pandas_estable \<and> wf_frame df_ejemplo \<and> distinct (index df_ejemplo) \<and>
   1 < length (index df_ejemplo) \<and> coercion pandas_estable df_ejemplo ! 1 = None \<and>
   caso df_ejemplo \<noteq> None \<and> fecha df_ejemplo \<noteq> None \<and> actuacion df_ejemplo \<noteq> None \<and>
   list_all is_Str
     (select (map notna (coercion pandas_estable df_ejemplo)) (actuaciones_de df_ejemplo)) \<and>
   1 < year reloj_abril \<and>
   procesar_datos pandas_estable reloj_abril df_ejemplo = (Inr salida_ejemplo, limpio_ejemplo) \<and>
   index df_ejemplo ! 1 \<notin> set (index (df_completo salida_ejemplo)) \<and>
   index df_ejemplo ! 1 \<notin> set (index (df_clasificado_fecha salida_ejemplo)) \<and>
   index df_ejemplo ! 1 \<notin> set (index (resultado_atrasados salida_ejemplo)) \<and>
   set (lista_actuaciones salida_ejemplo) =
     set (select (map notna (coercion pandas_estable df_ejemplo)) (actuaciones_de df_ejemplo))"
proof -
  have d: "distinct (index df_ejemplo)"
    and k: "1 < length (index df_ejemplo)"
    and c: "caso df_ejemplo \<noteq> None" "fecha df_ejemplo \<noteq> None" "actuacion df_ejemplo \<noteq> None"
    by (simp_all add: df_ejemplo_def)
  have n: "coercion pandas_estable df_ejemplo ! 1 = None"
    by (simp add: coercion_ejemplo)
  have s: "list_all is_Str
     (select (map notna (coercion pandas_estable df_ejemplo)) (actuaciones_de df_ejemplo))"
    unfolding coercion_ejemplo by (simp add: notna_def actuaciones_de_def df_ejemplo_def)
  have y: "1 < year reloj_abril"
    by (simp add: reloj_abril_def)
  note t = unparseable_rows_dropped [OF lib_ok_estable wf_ejemplo d k n,
      of reloj_abril salida_ejemplo limpio_ejemplo]
  from t ejemplo_abril
  have t1: "index df_ejemplo ! 1 \<notin> set (index (df_completo salida_ejemplo))"
    and t2: "index df_ejemplo ! 1 \<notin> set (index (df_clasificado_fecha salida_ejemplo))"
    and t3: "index df_ejemplo ! 1 \<notin> set (index (resultado_atrasados salida_ejemplo))"
    and t4: "set (lista_actuaciones salida_ejemplo) =
     set (select (map notna (coercion pandas_estable df_ejemplo)) (actuaciones_de df_ejemplo))"
    by blast+
  show ?thesis
    by (intro conjI)
       (rule lib_ok_estable wf_ejemplo d k n c s y ejemplo_abril t1 t2 t3 t4)+
qed

section \<open>C3: the classified view\<close>

lemma validas_map_Some [simp]: "validas (map Some xs) = xs"
  by (induction xs) simp_all

lemma take_pos_map:
  "set ps \<subseteq> {0..<length xs} \<Longrightarrow> take_pos ps (map f xs) = map f (take_pos ps xs)"
  by (auto simp: take_pos_def)

text \<open>
  C3 as stated fails in its second half. \<^verbatim>\<open>sort_values\<close> is called with its default
  \<^verbatim>\<open>kind='quicksort'\<close>, which pandas documents as not stable, so nothing fixes the order of
  rows with equal dates. With a sort that keeps the contract and reverses equal keys,
  eighteen rows of one date come out in the reverse of their order in the cleaned dataset.
  (Eighteen, because numpy's quicksort falls back to a stable insertion sort on shorter
  arrays and starts to exchange equal keys from there.)
\<close>

theorem equal_dates_reordered_counterexample:
  "lib_ok pandas_inverso \<and>
   index (vista df_completo (procesar_datos pandas_inverso reloj_abril df_empate)) =
     [0, 1, 2, 3, 4, 5, 6, 7, 8, 9, 10, 11, 12, 13, 14, 15, 16, 17] \<and>
   set (fechas_de (vista df_completo (procesar_datos pandas_inverso reloj_abril df_empate))) =
     {Some 1679270400000000000} \<and>
   index (vista df_clasificado_fecha (procesar_datos pandas_inverso reloj_abril df_empate)) =
     [17, 16, 15, 14, 13, 12, 11, 10, 9, 8, 7, 6, 5, 4, 3, 2, 1, 0]"
  using lib_ok_inverso
  by (simp add: eval_defs vista_def fechas_de_def df_empate_def reloj_abril_def
        pandas_inverso_def nargsort_inverso_def)

text \<open>
  C3, amended. In every successful run the classified view is the cleaned dataset with its
  rows reordered (a permutation of the row positions applied to every column), every row
  has a date, and the dates are in non-increasing order. The order of rows with equal
  dates is the one the library's sort returns.
\<close>

theorem classified_sorted_by_date:
  assumes "lib_ok L" and "wf_frame df" and "procesar_datos L now df = (Inr out, df')"
  shows "(\<exists>ps. mset ps = mset [0..<length (index (df_completo out))] \<and>
               df_clasificado_fecha out = take_rows ps (df_completo out)) \<and>
         length (validas (fechas_de (df_clasificado_fecha out))) =
           length (index (df_clasificado_fecha out)) \<and>
         sorted (rev (validas (fechas_de (df_clasificado_fecha out))))"
proof -
  note run = procesar_datos_Inr [OF assms(3)]
  let ?C = "limpio L df"
  let ?fs = "validas (coercion L df)"
  let ?ps = "nargsort_desc L ?fs"
  have fe: "fecha df \<noteq> None" by (rule cuerpo_Inr(1) [OF run])
  have len: "length ?fs = length (index ?C)"
    by (rule length_validas_limpio [OF assms(1,2) fe])
  have perm: "mset ?ps = mset [0..<length ?fs]"
    by (rule lib_ok_perm [OF assms(1)])
  have Cl: "df_clasificado_fecha out = take_rows ?ps ?C"
    by (rule cuerpo_Inr(4) [OF run])
  have "fechas_de (take_rows ?ps ?C) = take_pos ?ps (map Some ?fs)"
    by (simp add: fechas_de_def fecha_limpio)
  also have "\<dots> = map Some (take_pos ?ps ?fs)"
    by (rule take_pos_map) (simp add: perm_positions(2) [OF perm])
  finally have f: "validas (fechas_de (df_clasificado_fecha out)) = take_pos ?ps ?fs"
    by (simp add: Cl)
  have 1: "\<exists>ps. mset ps = mset [0..<length (index (df_completo out))] \<and>
                df_clasificado_fecha out = take_rows ps (df_completo out)"
    using perm Cl by (intro exI [of _ ?ps]) (simp only: cuerpo_Inr(3) [OF run] len simp_thms)
  have "length (validas (fechas_de (df_clasificado_fecha out))) = length ?ps"
    unfolding f by simp
  also have "length ?ps = length (index (df_clasificado_fecha out))"
    by (simp add: Cl)
  finally have 2: "length (validas (fechas_de (df_clasificado_fecha out))) =
             length (index (df_clasificado_fecha out))" .
  have 3: "sorted (rev (validas (fechas_de (df_clasificado_fecha out))))"
    unfolding f take_pos_def by (rule lib_ok_sorted [OF assms(1)])
  from 1 2 3 show ?thesis by (intro conjI)
qed

theorem classified_sorted_by_date_witness:
  "lib_ok pandas_estable \<and> wf_frame df_ejemplo \<and>
   procesar_datos pandas_estable reloj_abril df_ejemplo = (Inr salida_ejemplo, limpio_ejemplo) \<and>
   index (df_completo salida_ejemplo) = [0, 2, 3] \<and>
   index (df_clasificado_fecha salida_ejemplo) = [2, 0, 3] \<and>
   validas (fechas_de (df_clasificado_fecha salida_ejemplo)) =
     [1679270400000000000, 1673308800000000000, 1670198400000000000] \<and>
   (\<exists>ps. mset ps = mset [0..<length (index (df_completo salida_ejemplo))] \<and>
         df_clasificado_fecha salida_ejemplo = take_rows ps (df_completo salida_ejemplo)) \<and>
   sorted (rev (validas (fechas_de (df_clasificado_fecha salida_ejemplo))))"
proof -
  have i: "index (df_completo salida_ejemplo) = [0, 2, 3]"
    "index (df_clasificado_fecha salida_ejemplo) = [2, 0, 3]"
    "validas (fechas_de (df_clasificado_fecha salida_ejemplo)) =
       [1679270400000000000, 1673308800000000000, 1670198400000000000]"
    by (simp_all add: salida_ejemplo_def limpio_ejemplo_def fechas_de_def)
  note t = classified_sorted_by_date [OF lib_ok_estable wf_ejemplo ejemplo_abril]
  from t have t1: "\<exists>ps. mset ps = mset [0..<length (index (df_completo salida_ejemplo))] \<and>
         df_clasificado_fecha salida_ejemplo = take_rows ps (df_completo salida_ejemplo)"
    and t2: "sorted (rev (validas (fechas_de (df_clasificado_fecha salida_ejemplo))))"
    by (rule conjunct1, rule conjunct2 [THEN conjunct2])
  show ?thesis
    by (intro conjI) (rule lib_ok_estable wf_ejemplo ejemplo_abril i t1 t2)+
qed

end
